theory Spec2Isabelle
  imports Main "HOL-Library.Sublist"
begin

section \<open>Data model\<close>

text \<open>
  The program is a command-line chatbot: a run loop reads a line, pushes it on the
  conversation history and invokes a graph whose first node classifies the line and whose
  second node answers it. The language model is an external service; here it is a
  parameter of every definition that calls it.

  Strings are lists of 8-bit characters, read as the code points below 256.
\<close>

datatype role = Human | AI | System

text \<open>A message has a role, a text and an identifier. The identifier is optional: a
  message made by \<^verbatim>\<open>new HumanMessage(text)\<close> or \<^verbatim>\<open>new SystemMessage(text)\<close> has none, and a
  reply of the external model carries whatever identifier the model gave it.\<close>

record message =
  role :: role
  content :: string
  message_id :: "string option"

definition HumanMessage :: "string \<Rightarrow> message" where
  "HumanMessage c = \<lparr>role = Human, content = c, message_id = None\<rparr>"

definition SystemMessage :: "string \<Rightarrow> message" where
  "SystemMessage c = \<lparr>role = System, content = c, message_id = None\<rparr>"

text \<open>\<^verbatim>\<open>type Contact = { name: string; phone: string; city: string }\<close>\<close>

record Contact =
  name :: string
  phone :: string
  city :: string

text \<open>The initial value of the module-level variable \<^verbatim>\<open>contacts\<close>.\<close>

definition contacts_init :: "Contact list" where
  "contacts_init =
     [\<lparr>name = ''Andi'', phone = ''08123456789'', city = ''Makassar''\<rparr>,
      \<lparr>name = ''Budi'', phone = ''08987654321'', city = ''Bone''\<rparr>]"

text \<open>
  \<^verbatim>\<open>ChatState\<close>: the message list and the intent label. At run time the label is a
  string or \<^verbatim>\<open>undefined\<close> (here \<open>None\<close>); the union type of the annotation is a
  compile-time restriction only.
\<close>

record ChatState =
  messages :: "message list"
  intent :: "string option"

text \<open>
  The ways a call can end without a value. All but the last are exceptions. \<open>NotModelled\<close>
  is no exception of the program: it marks a run that has left the behaviour written
  down here, and nothing is said about how the program goes on from there.
\<close>

datatype error =
    TypeError
  | CallFailed
  | OutputParseError
  | UnknownDestination
  | UnknownNode
  | GraphRecursionError
  | NotModelled

text \<open>
  The external model. \<open>invoke\<close> is the text-generation call, \<open>structured_output\<close> the
  call made through \<^verbatim>\<open>withStructuredOutput\<close>: it receives the label enumeration of the
  schema and the messages and answers with the \<^verbatim>\<open>intent\<close> field of its raw output.
  \<open>None\<close> is a call that throws (network, authentication, quota, malformed output).
\<close>

record ChatOpenAI =
  invoke :: "message list \<Rightarrow> message option"
  structured_output :: "string list \<Rightarrow> message list \<Rightarrow> string option"

section \<open>Strings\<close>

text \<open>
  \<^verbatim>\<open>String.prototype.toLowerCase\<close> on code points below 256: the letters A to Z and the
  Latin-1 capitals U+00C0 to U+00DE without the multiplication sign U+00D7 move up by 32,
  which sets bit 5; every other character stays.
\<close>

definition is_upper :: "char \<Rightarrow> bool" where
  "is_upper c =
     (let n = (of_char c :: nat)
      in (65 \<le> n \<and> n \<le> 90) \<or> (192 \<le> n \<and> n \<le> 222 \<and> n \<noteq> 215))"

definition toLowerCase_char :: "char \<Rightarrow> char" where
  "toLowerCase_char c =
     (if is_upper c
      then (case c of Char b0 b1 b2 b3 b4 b5 b6 b7 \<Rightarrow> Char b0 b1 b2 b3 b4 True b6 b7)
      else c)"

definition toLowerCase :: "string \<Rightarrow> string" where
  "toLowerCase s = map toLowerCase_char s"

fun join :: "string \<Rightarrow> string list \<Rightarrow> string" where
  "join sep [] = []"
| "join sep [x] = x"
| "join sep (x # y # ys) = x @ sep @ join sep (y # ys)"

text \<open>
  \<^verbatim>\<open>JSON.stringify(contacts, null, 2)\<close>. A string is quoted with the escapes of the JSON
  grammar: the double quote, the backslash, the five short control escapes, and
  \<^verbatim>\<open>\u00XX\<close> in lower-case hexadecimal for the other characters below 0x20.
\<close>

definition hex_digits :: string where
  "hex_digits = ''0123456789abcdef''"

definition json_escape_char :: "char \<Rightarrow> string" where
  "json_escape_char c =
     (if c = CHR 0x22 then [CHR 0x5C, CHR 0x22]
      else if c = CHR 0x5C then [CHR 0x5C, CHR 0x5C]
      else if c = CHR 0x08 then [CHR 0x5C, CHR ''b'']
      else if c = CHR 0x09 then [CHR 0x5C, CHR ''t'']
      else if c = CHR 0x0A then [CHR 0x5C, CHR ''n'']
      else if c = CHR 0x0C then [CHR 0x5C, CHR ''f'']
      else if c = CHR 0x0D then [CHR 0x5C, CHR ''r'']
      else if (of_char c :: nat) < 32
      then [CHR 0x5C, CHR ''u'', CHR ''0'', CHR ''0'',
            hex_digits ! ((of_char c :: nat) div 16), hex_digits ! ((of_char c :: nat) mod 16)]
      else [c])"

definition json_quote :: "string \<Rightarrow> string" where
  "json_quote s = [CHR 0x22] @ concat (map json_escape_char s) @ [CHR 0x22]"

text \<open>One contact as an element of the array: its lines are indented by four spaces
  and its closing brace by two.\<close>

definition stringify_contact :: "Contact \<Rightarrow> string" where
  \<open>stringify_contact c =
     ''{\<newline>'' @
     ''    "name": '' @ json_quote (name c) @ '',\<newline>'' @
     ''    "phone": '' @ json_quote (phone c) @ '',\<newline>'' @
     ''    "city": '' @ json_quote (city c) @ ''\<newline>'' @
     ''  }''\<close>

definition JSON_stringify :: "Contact list \<Rightarrow> string" where
  "JSON_stringify cs =
     (if cs = [] then ''[]''
      else ''[\<newline>'' @ join '',\<newline>'' (map (\<lambda>c. ''  '' @ stringify_contact c) cs) @ ''\<newline>]'')"

section \<open>Prompts\<close>

definition classifier_prompt :: string where
  \<open>classifier_prompt =
     ''Classify the user message as either:\<newline>'' @
     ''       - 'emotional': for emotional support or feelings\<newline>'' @
     ''       - 'logical': for facts, information, or general queries not covered by the above\<newline>'' @
     ''       - 'general': for greetings (e.g., "hello", "hi") or simple small talk\<newline>'' @
     ''       - 'contact_request': if the user asks for contact information, phone number, contact list\<newline>'' @
     ''       ''\<close>

definition classifier_prompt_index :: string where
  \<open>classifier_prompt_index =
     ''Classify the user message as either:\<newline>'' @
     ''       - 'emotional': for emotional support or feelings\<newline>'' @
     ''       - 'logical': for facts, information, or general queries not covered by the above\<newline>'' @
     ''       - 'general': for greetings (e.g., "hello", "hi") or simple small talk''\<close>

definition contact_prompt_head :: string where
  \<open>contact_prompt_head =
     ''Kamu adalah asisten kontak. \<newline>'' @
     ''  Gunakan data kontak yang diberikan untuk menjawab pertanyaan user.\<newline>'' @
     ''  Jika user bertanya nomor seseorang, cari di daftar. \<newline>'' @
     ''  Jika tidak ditemukan, jawab dengan sopan "kontak tidak ditemukan". \<newline>'' @
     ''  Jika user minta menambahkan kontak, katakan bahwa fungsi tambah belum tersedia \<newline>'' @
     ''  (kecuali kalau nanti ditambahkan update DB).\<newline>'' @
     ''      \<newline>'' @
     ''  Daftar kontak:\<newline>'' @
     ''  ''\<close>

definition contact_prompt_tail :: string where
  \<open>contact_prompt_tail =
     ''\<newline>'' @
     ''      ''\<close>

definition logical_prompt :: string where
  \<open>logical_prompt =
     ''You are a purely logical assistant. Focus only on facts and information.\<newline>'' @
     ''       Provide clear, concise answers based on logic and evidence.\<newline>'' @
     ''       Do not address emotions or provide emotional support.\<newline>'' @
     ''       Be direct and straightforward in your responses.''\<close>

definition emotional_prompt :: string where
  \<open>emotional_prompt =
     ''You are a compassionate therapist. Focus on the emotional aspects of the user's message.\<newline>'' @
     ''       Show empathy, validate their feelings, and help them process their emotions.\<newline>'' @
     ''       Ask thoughtful questions to help them explore their feelings more deeply.\<newline>'' @
     ''       Avoid giving logical solutions unless explicitly asked.''\<close>

definition general_prompt :: string where
  \<open>general_prompt =
     ''You are a friendly chatbot. Handle greetings and small talk casually.\<newline>'' @
     ''       Be warm, polite, and concise.''\<close>

text \<open>The two templates that wrap the content of the last message.\<close>

definition message_template :: "string \<Rightarrow> string" where
  \<open>message_template c = ''Message: "'' @ c @ ''"''\<close>

definition pesan_template :: "string \<Rightarrow> string" where
  \<open>pesan_template c = ''Pesan user: "'' @ c @ ''"''\<close>

definition contact_prompt :: "Contact list \<Rightarrow> string" where
  "contact_prompt cs = contact_prompt_head @ JSON_stringify cs @ contact_prompt_tail"

section \<open>Nodes\<close>

text \<open>
  \<^verbatim>\<open>state.messages[state.messages.length - 1]\<close>: on an empty array the index is \<open>-1\<close>
  and the value \<^verbatim>\<open>undefined\<close>, here \<open>None\<close>. Reading \<^verbatim>\<open>last.content\<close> then throws a
  TypeError while the arguments of the external call are built, before the call.
\<close>

definition last_message :: "message list \<Rightarrow> message option" where
  "last_message ms = (if ms = [] then None else Some (ms ! (length ms - 1)))"

text \<open>The label enumerations of the two schemas (\<^verbatim>\<open>z.enum\<close>): with and without the
  contact lookup.\<close>

definition schema :: "string list" where
  "schema = [''emotional'', ''logical'', ''general'', ''contact_request'']"

definition schema_index :: "string list" where
  "schema_index = [''emotional'', ''logical'', ''general'']"

text \<open>\<^verbatim>\<open>model.withStructuredOutput(schema).invoke(msgs)\<close>: the raw output is validated
  against the enumeration, and a label outside it is a parse failure.\<close>

definition withStructuredOutput ::
  "string list \<Rightarrow> ChatOpenAI \<Rightarrow> message list \<Rightarrow> error + string" where
  "withStructuredOutput labels model msgs =
     (case structured_output model labels msgs of
        None \<Rightarrow> Inl CallFailed
      | Some l \<Rightarrow> if l \<in> set labels then Inr l else Inl OutputParseError)"

definition model_invoke :: "ChatOpenAI \<Rightarrow> message list \<Rightarrow> error + message" where
  "model_invoke model msgs =
     (case invoke model msgs of None \<Rightarrow> Inl CallFailed | Some resp \<Rightarrow> Inr resp)"

text \<open>The messages each node sends to the external model, from the last message.\<close>

definition classifier_input :: "message \<Rightarrow> message list" where
  "classifier_input lastm =
     [SystemMessage classifier_prompt, HumanMessage (message_template (content lastm))]"

definition classifier_input_index :: "message \<Rightarrow> message list" where
  "classifier_input_index lastm =
     [SystemMessage classifier_prompt_index, HumanMessage (message_template (content lastm))]"

definition contact_input :: "Contact list \<Rightarrow> message \<Rightarrow> message list" where
  "contact_input cs lastm =
     [SystemMessage (contact_prompt cs), HumanMessage (pesan_template (content lastm))]"

definition logical_input :: "message \<Rightarrow> message list" where
  "logical_input lastm =
     [SystemMessage logical_prompt, HumanMessage (message_template (content lastm))]"

definition emotional_input :: "message \<Rightarrow> message list" where
  "emotional_input lastm =
     [SystemMessage emotional_prompt, HumanMessage (message_template (content lastm))]"

definition general_input :: "message \<Rightarrow> message list" where
  "general_input lastm =
     [SystemMessage general_prompt, HumanMessage (message_template (content lastm))]"

definition classifierNode :: "ChatOpenAI \<Rightarrow> ChatState \<Rightarrow> error + ChatState" where
  "classifierNode model state =
     (case last_message (messages state) of
        None \<Rightarrow> Inl TypeError
      | Some lastm \<Rightarrow>
          (case withStructuredOutput schema model (classifier_input lastm) of
             Inl e \<Rightarrow> Inl e
           | Inr resp \<Rightarrow> Inr (state\<lparr>intent := Some resp\<rparr>)))"

definition classifierNode_index :: "ChatOpenAI \<Rightarrow> ChatState \<Rightarrow> error + ChatState" where
  "classifierNode_index model state =
     (case last_message (messages state) of
        None \<Rightarrow> Inl TypeError
      | Some lastm \<Rightarrow>
          (case withStructuredOutput schema_index model (classifier_input_index lastm) of
             Inl e \<Rightarrow> Inl e
           | Inr resp \<Rightarrow> Inr (state\<lparr>intent := Some resp\<rparr>)))"

text \<open>\<^verbatim>\<open>contactNode\<close> reads the module-level variable \<^verbatim>\<open>contacts\<close> when it runs; its
  current value is the argument \<open>cs\<close>. The commented copy of the program words the
  instruction before the list in English; the rest of the node is the same.\<close>

definition contactNode ::
  "ChatOpenAI \<Rightarrow> Contact list \<Rightarrow> ChatState \<Rightarrow> error + ChatState" where
  "contactNode model cs state =
     (case last_message (messages state) of
        None \<Rightarrow> Inl TypeError
      | Some lastm \<Rightarrow>
          (case model_invoke model (contact_input cs lastm) of
             Inl e \<Rightarrow> Inl e
           | Inr resp \<Rightarrow> Inr (state\<lparr>messages := messages state @ [resp]\<rparr>)))"

definition logicalNode :: "ChatOpenAI \<Rightarrow> ChatState \<Rightarrow> error + ChatState" where
  "logicalNode model state =
     (case last_message (messages state) of
        None \<Rightarrow> Inl TypeError
      | Some lastm \<Rightarrow>
          (case model_invoke model (logical_input lastm) of
             Inl e \<Rightarrow> Inl e
           | Inr resp \<Rightarrow> Inr (state\<lparr>messages := messages state @ [resp]\<rparr>)))"

definition emotionalNode :: "ChatOpenAI \<Rightarrow> ChatState \<Rightarrow> error + ChatState" where
  "emotionalNode model state =
     (case last_message (messages state) of
        None \<Rightarrow> Inl TypeError
      | Some lastm \<Rightarrow>
          (case model_invoke model (emotional_input lastm) of
             Inl e \<Rightarrow> Inl e
           | Inr resp \<Rightarrow> Inr (state\<lparr>messages := messages state @ [resp]\<rparr>)))"

definition generalNode :: "ChatOpenAI \<Rightarrow> ChatState \<Rightarrow> error + ChatState" where
  "generalNode model state =
     (case last_message (messages state) of
        None \<Rightarrow> Inl TypeError
      | Some lastm \<Rightarrow>
          (case model_invoke model (general_input lastm) of
             Inl e \<Rightarrow> Inl e
           | Inr resp \<Rightarrow> Inr (state\<lparr>messages := messages state @ [resp]\<rparr>)))"

section \<open>The graph\<close>

text \<open>
  The graph is built with \<^verbatim>\<open>addNode\<close>, \<^verbatim>\<open>addEdge\<close> and \<^verbatim>\<open>addConditionalEdges\<close>. A
  conditional edge holds the routing function and the table from its results to node
  names (an object literal, looked up by key).
\<close>

definition START :: string where
  "START = ''__start__''"

definition END :: string where
  "END = ''__end__''"

type_synonym node_fn = "ChatState \<Rightarrow> error + ChatState"

record StateGraph =
  nodes :: "(string \<times> node_fn) list"
  edges :: "(string \<times> string) list"
  branches :: "(string \<times> (ChatState \<Rightarrow> string) \<times> (string \<times> string) list) list"

definition new_StateGraph :: StateGraph where
  "new_StateGraph = \<lparr>nodes = [], edges = [], branches = []\<rparr>"

definition addNode :: "string \<Rightarrow> node_fn \<Rightarrow> StateGraph \<Rightarrow> StateGraph" where
  "addNode n f g = g\<lparr>nodes := nodes g @ [(n, f)]\<rparr>"

definition addEdge :: "string \<Rightarrow> string \<Rightarrow> StateGraph \<Rightarrow> StateGraph" where
  "addEdge a b g = g\<lparr>edges := edges g @ [(a, b)]\<rparr>"

definition addConditionalEdges ::
  "string \<Rightarrow> (ChatState \<Rightarrow> string) \<Rightarrow> (string \<times> string) list \<Rightarrow> StateGraph \<Rightarrow> StateGraph" where
  "addConditionalEdges a path ends g = g\<lparr>branches := branches g @ [(a, path, ends)]\<rparr>"

text \<open>The routing function \<^verbatim>\<open>(state) => state.intent ?? "logical"\<close> and the two
  routing tables, each with the keys its object literal lists.\<close>

definition route :: "ChatState \<Rightarrow> string" where
  "route st = (case intent st of None \<Rightarrow> ''logical'' | Some l \<Rightarrow> l)"

definition pathMap :: "(string \<times> string) list" where
  "pathMap =
     [(''logical'', ''logical''),
      (''emotional'', ''emotional''),
      (''general'', ''general''),
      (''contact_request'', ''contact_request'')]"

definition pathMap_index :: "(string \<times> string) list" where
  "pathMap_index =
     [(''logical'', ''logical''),
      (''emotional'', ''emotional''),
      (''general'', ''general'')]"

text \<open>The builder calls, in the order of the source.\<close>

definition workflow :: "ChatOpenAI \<Rightarrow> Contact list \<Rightarrow> StateGraph" where
  "workflow model cs =
     foldl (\<lambda>g f. f g) new_StateGraph
       [addNode ''classifier'' (classifierNode model),
        addNode ''logical'' (logicalNode model),
        addNode ''emotional'' (emotionalNode model),
        addNode ''general'' (generalNode model),
        addNode ''contact_request'' (contactNode model cs),
        addEdge START ''classifier'',
        addConditionalEdges ''classifier'' route pathMap,
        addEdge ''logical'' END,
        addEdge ''emotional'' END,
        addEdge ''general'' END,
        addEdge ''contact_request'' END]"

definition workflow_index :: "ChatOpenAI \<Rightarrow> StateGraph" where
  "workflow_index model =
     foldl (\<lambda>g f. f g) new_StateGraph
       [addNode ''classifier'' (classifierNode_index model),
        addNode ''logical'' (logicalNode model),
        addNode ''emotional'' (emotionalNode model),
        addNode ''general'' (generalNode model),
        addEdge START ''classifier'',
        addConditionalEdges ''classifier'' route pathMap_index,
        addEdge ''logical'' END,
        addEdge ''emotional'' END,
        addEdge ''general'' END]"

subsection \<open>The state channels\<close>

text \<open>
  The state type of the graph is \<^verbatim>\<open>Annotation.Root({...MessagesAnnotation.spec, intent})\<close>.
  The \<open>intent\<close> channel keeps the last value written. The \<open>messages\<close> channel comes with
  the reducer of \<^verbatim>\<open>MessagesAnnotation\<close>: what a node returns as \<open>messages\<close> is not stored as
  it is but merged into the list the channel holds, by message identifier. The reducer
  belongs to the graph library; it is written down here as the program relies on it.

  First every message without an identifier is given one by the generator of random
  identifiers, the messages of the channel before those of the update. \<open>uuid\<close> stands
  for the generator: \<open>uuid k\<close> is what it hands out at its \<open>k\<close>-th call within one
  invocation of the graph. Nothing is assumed about these values.
\<close>

fun assign_ids :: "(nat \<Rightarrow> string) \<Rightarrow> nat \<Rightarrow> message list \<Rightarrow> message list" where
  "assign_ids uuid k [] = []"
| "assign_ids uuid k (m # ms) =
     (case message_id m of
        None \<Rightarrow> m\<lparr>message_id := Some (uuid k)\<rparr> # assign_ids uuid (Suc k) ms
      | Some i \<Rightarrow> m # assign_ids uuid k ms)"

definition missing_ids :: "message list \<Rightarrow> nat" where
  "missing_ids ms = length (filter (\<lambda>m. message_id m = None) ms)"

text \<open>
  Then the messages of the update are merged in one by one. A message whose identifier
  is already in the list takes the place of the message with that identifier (the last
  one, should there be several); any other message is put at the end. Messages that ask
  for a removal are left out: the program creates none, and a reply of the external model
  is an assistant message.
\<close>

fun merge_message :: "message list \<Rightarrow> message \<Rightarrow> message list" where
  "merge_message [] m = [m]"
| "merge_message (x # xs) m =
     (if message_id m \<in> set (map message_id xs) then x # merge_message xs m
      else if message_id x = message_id m then m # xs
      else x # merge_message xs m)"

definition messagesStateReducer ::
  "(nat \<Rightarrow> string) \<Rightarrow> nat \<Rightarrow> message list \<Rightarrow> message list \<Rightarrow> message list" where
  "messagesStateReducer uuid k left right =
     foldl merge_message (assign_ids uuid k left) (assign_ids uuid (k + missing_ids left) right)"

text \<open>Writing a node's return value \<open>upd\<close> to the channels that hold \<open>st\<close>, and the
  number of identifiers handed out after it.\<close>

definition apply_update :: "(nat \<Rightarrow> string) \<Rightarrow> nat \<Rightarrow> ChatState \<Rightarrow> ChatState \<Rightarrow> ChatState" where
  "apply_update uuid k st upd =
     \<lparr>messages = messagesStateReducer uuid k (messages st) (messages upd), intent = intent upd\<rparr>"

definition ids_used :: "nat \<Rightarrow> ChatState \<Rightarrow> ChatState \<Rightarrow> nat" where
  "ids_used k st upd = k + missing_ids (messages st) + missing_ids (messages upd)"

text \<open>The argument of \<^verbatim>\<open>app.invoke\<close> is written to the empty channels in the same way.\<close>

definition graph_input :: "(nat \<Rightarrow> string) \<Rightarrow> ChatState \<Rightarrow> ChatState" where
  "graph_input uuid st = apply_update uuid 0 \<lparr>messages = [], intent = None\<rparr> st"

subsection \<open>Running the graph\<close>

text \<open>
  Looking a routing result up in the table of a conditional edge. The table is an object
  literal, so besides its own keys the lookup finds the properties every object
  inherits; what it finds there is no node name.
\<close>

datatype destination = Found string | Inherited | NoEntry

definition object_prototype_keys :: "string list" where
  "object_prototype_keys =
     [''constructor'', ''__defineGetter__'', ''__defineSetter__'', ''hasOwnProperty'',
      ''__lookupGetter__'', ''__lookupSetter__'', ''isPrototypeOf'', ''propertyIsEnumerable'',
      ''toString'', ''valueOf'', ''__proto__'', ''toLocaleString'']"

definition lookup_ends :: "(string \<times> string) list \<Rightarrow> string \<Rightarrow> destination" where
  "lookup_ends ends r =
     (case map_of ends r of
        Some d \<Rightarrow> Found d
      | None \<Rightarrow> if r \<in> set object_prototype_keys then Inherited else NoEntry)"

text \<open>
  Running a compiled graph is the work of the graph library. What the program relies on
  is modelled here: from the start marker the run follows the outgoing edge of the
  current node, a node's return value is written to the channels and the next node reads
  them, a conditional edge applies its routing function to the state after that write
  and looks the result up in its table, an exception in a node ends the run, and the run
  is over at the end marker. A routing result without an entry is an exception; for one
  that names an inherited property the run is not modelled any further. The number of
  steps is bounded by the recursion limit, whose default is 25. The result carries the
  names of the nodes that ran, in order.
\<close>

definition successor :: "StateGraph \<Rightarrow> string \<Rightarrow> ChatState \<Rightarrow> error + string" where
  "successor g n st =
     (case map_of (edges g) n of
        Some d \<Rightarrow> Inr d
      | None \<Rightarrow>
          (case map_of (branches g) n of
             Some (path, ends) \<Rightarrow>
               (case lookup_ends ends (path st) of
                  Found d \<Rightarrow> Inr d
                | NoEntry \<Rightarrow> Inl UnknownDestination
                | Inherited \<Rightarrow> Inl NotModelled)
           | None \<Rightarrow> Inr END))"

fun run_from ::
  "StateGraph \<Rightarrow> (nat \<Rightarrow> string) \<Rightarrow> nat \<Rightarrow> nat \<Rightarrow> string \<Rightarrow> ChatState \<Rightarrow>
   string list \<times> (error + ChatState)" where
  "run_from g uuid c k n st =
     (if n = END then ([], Inr st)
      else case k of
        0 \<Rightarrow> ([], Inl GraphRecursionError)
      | Suc k' \<Rightarrow>
          (case map_of (nodes g) n of
             None \<Rightarrow> ([], Inl UnknownNode)
           | Some f \<Rightarrow>
               (case f st of
                  Inl e \<Rightarrow> ([n], Inl e)
                | Inr upd \<Rightarrow>
                    (case successor g n (apply_update uuid c st upd) of
                       Inl e \<Rightarrow> ([n], Inl e)
                     | Inr d \<Rightarrow>
                         (case run_from g uuid (ids_used c st upd) k' d (apply_update uuid c st upd) of
                            (tr, r) \<Rightarrow> (n # tr, r))))))"

definition recursionLimit :: nat where
  "recursionLimit = 25"

definition graph_invoke ::
  "StateGraph \<Rightarrow> (nat \<Rightarrow> string) \<Rightarrow> ChatState \<Rightarrow> string list \<times> (error + ChatState)" where
  "graph_invoke g uuid st =
     (case successor g START (graph_input uuid st) of
        Inl e \<Rightarrow> ([], Inl e)
      | Inr d \<Rightarrow> run_from g uuid (missing_ids (messages st)) recursionLimit d (graph_input uuid st))"

text \<open>\<^verbatim>\<open>app.invoke(state)\<close>, for the graph with the contact node and for the one
  without.\<close>

definition app_invoke ::
  "(nat \<Rightarrow> string) \<Rightarrow> ChatOpenAI \<Rightarrow> Contact list \<Rightarrow> ChatState \<Rightarrow>
   string list \<times> (error + ChatState)" where
  "app_invoke uuid model cs st = graph_invoke (workflow model cs) uuid st"

definition app_invoke_index ::
  "(nat \<Rightarrow> string) \<Rightarrow> ChatOpenAI \<Rightarrow> ChatState \<Rightarrow> string list \<times> (error + ChatState)" where
  "app_invoke_index uuid model st = graph_invoke (workflow_index model) uuid st"

section \<open>The run loop\<close>

text \<open>
  The loop's variable \<^verbatim>\<open>state\<close> is the state of the process; \<open>events\<close> records, in order,
  the nodes that ran and what was printed. The loop reads one line per iteration, so it
  is a recursion over the lines typed so far: when they are used up the loop is waiting
  at the prompt. The external model may answer differently at every turn, so the loop
  takes the graph invocation of each turn, numbered from 0. An exception in
  \<^verbatim>\<open>app.invoke\<close> is not caught and ends the process; what is left of it then is the error
  and the events up to it.
\<close>

datatype event = Ran string | Bot string | Bye

record process =
  state :: ChatState
  events :: "event list"

datatype outcome = Exited process | AwaitingInput process | Crashed error "event list"

text \<open>\<^verbatim>\<open>state.messages.push(new HumanMessage(userInput))\<close>\<close>

definition push_user :: "ChatState \<Rightarrow> string \<Rightarrow> ChatState" where
  "push_user st userInput = st\<lparr>messages := messages st @ [HumanMessage userInput]\<rparr>"

fun main_loop ::
  "(nat \<Rightarrow> ChatState \<Rightarrow> string list \<times> (error + ChatState)) \<Rightarrow>
   nat \<Rightarrow> process \<Rightarrow> string list \<Rightarrow> outcome" where
  "main_loop app t p [] = AwaitingInput p"
| "main_loop app t p (userInput # rest) =
     (if toLowerCase userInput = ''exit''
      then Exited (p\<lparr>events := events p @ [Bye]\<rparr>)
      else
        (case app t (push_user (state p) userInput) of
           (tr, Inl e) \<Rightarrow> Crashed e (events p @ map Ran tr)
         | (tr, Inr st') \<Rightarrow>
             (case last_message (messages st') of
                None \<Rightarrow> Crashed TypeError (events p @ map Ran tr)
              | Some lastm \<Rightarrow>
                  main_loop app (Suc t)
                    \<lparr>state = st', events = events p @ map Ran tr @ [Bot (content lastm)]\<rparr>
                    rest)))"

text \<open>
  The program. \<open>uuids t\<close> is the identifier generator and \<open>models t\<close> the external model
  during turn \<open>t\<close>. The contact node reads the module-level variable \<^verbatim>\<open>contacts\<close>, which
  the program text assigns nowhere after its initialisation, so each read yields the
  initial list.
\<close>

definition main :: "(nat \<Rightarrow> nat \<Rightarrow> string) \<Rightarrow> (nat \<Rightarrow> ChatOpenAI) \<Rightarrow> string list \<Rightarrow> outcome" where
  "main uuids models inputs =
     main_loop (\<lambda>t. app_invoke (uuids t) (models t) contacts_init) 0
       \<lparr>state = \<lparr>messages = [], intent = None\<rparr>, events = []\<rparr> inputs"

definition main_index ::
  "(nat \<Rightarrow> nat \<Rightarrow> string) \<Rightarrow> (nat \<Rightarrow> ChatOpenAI) \<Rightarrow> string list \<Rightarrow> outcome" where
  "main_index uuids models inputs =
     main_loop (\<lambda>t. app_invoke_index (uuids t) (models t)) 0
       \<lparr>state = \<lparr>messages = [], intent = None\<rparr>, events = []\<rparr> inputs"

section \<open>Auxiliary definitions\<close>

text \<open>The events of a run, however it ended.\<close>

fun outcome_events :: "outcome \<Rightarrow> event list" where
  "outcome_events (Exited p) = events p"
| "outcome_events (AwaitingInput p) = events p"
| "outcome_events (Crashed e evs) = evs"


text \<open>Stand-ins for the external model: one that always classifies with one fixed label
  and always answers with one fixed text, one that answers with a given message, and one
  whose calls all fail.\<close>

definition stub_model :: "string \<Rightarrow> string \<Rightarrow> ChatOpenAI" where
  "stub_model label reply =
     \<lparr>invoke = (\<lambda>msgs. Some \<lparr>role = AI, content = reply, message_id = None\<rparr>),
      structured_output = (\<lambda>labels msgs. Some label)\<rparr>"

definition stub_reply :: "string \<Rightarrow> message \<Rightarrow> ChatOpenAI" where
  "stub_reply label r =
     \<lparr>invoke = (\<lambda>msgs. Some r), structured_output = (\<lambda>labels msgs. Some label)\<rparr>"

definition failing_model :: ChatOpenAI where
  "failing_model = \<lparr>invoke = (\<lambda>msgs. None), structured_output = (\<lambda>labels msgs. None)\<rparr>"

text \<open>A single message after the assignment of identifiers, when \<open>c\<close> have been
  handed out before.\<close>

definition with_id :: "(nat \<Rightarrow> string) \<Rightarrow> nat \<Rightarrow> message \<Rightarrow> message" where
  "with_id uuid c m =
     (case message_id m of None \<Rightarrow> m\<lparr>message_id := Some (uuid c)\<rparr> | Some i \<Rightarrow> m)"

text \<open>A generator of identifiers for examples: \<open>0\<close>, \<open>00\<close>, \<open>000\<close>, and so on.\<close>

definition zeros :: "nat \<Rightarrow> string" where
  "zeros k = replicate (Suc k) CHR ''0''"

text \<open>What the loop needs from the graph: on a non-empty history it does not fail with a
  TypeError, and the history it returns is not empty.\<close>

definition app_ok :: "(nat \<Rightarrow> ChatState \<Rightarrow> string list \<times> (error + ChatState)) \<Rightarrow> bool" where
  "app_ok app \<longleftrightarrow>
     (\<forall>t st. messages st \<noteq> [] \<longrightarrow>
        snd (app t st) \<noteq> Inl TypeError \<and>
        (\<forall>st'. snd (app t st) = Inr st' \<longrightarrow> messages st' \<noteq> []))"

section \<open>Auxiliary facts\<close>

subsection \<open>Nodes\<close>

lemma HumanMessage_sel [simp]:
  "role (HumanMessage c) = Human" "content (HumanMessage c) = c"
  "message_id (HumanMessage c) = None"
  by (simp_all add: HumanMessage_def)

lemma last_message_Some: "last_message ms = Some m \<longleftrightarrow> ms \<noteq> [] \<and> m = last ms"
  by (auto simp: last_message_def last_conv_nth)

lemma last_message_None: "last_message ms = None \<longleftrightarrow> ms = []"
  by (simp add: last_message_def)

lemma classifierNode_Inr:
  "classifierNode model st = Inr st' \<longleftrightarrow>
     (\<exists>m l. last_message (messages st) = Some m \<and>
        structured_output model schema (classifier_input m) = Some l \<and>
        l \<in> set schema \<and> st' = st\<lparr>intent := Some l\<rparr>)"
  by (auto simp: classifierNode_def withStructuredOutput_def
      split: option.splits sum.splits if_splits)

lemma classifierNode_index_Inr:
  "classifierNode_index model st = Inr st' \<longleftrightarrow>
     (\<exists>m l. last_message (messages st) = Some m \<and>
        structured_output model schema_index (classifier_input_index m) = Some l \<and>
        l \<in> set schema_index \<and> st' = st\<lparr>intent := Some l\<rparr>)"
  by (auto simp: classifierNode_index_def withStructuredOutput_def
      split: option.splits sum.splits if_splits)

lemma logicalNode_Inr:
  "logicalNode model st = Inr st' \<longleftrightarrow>
     (\<exists>m r. last_message (messages st) = Some m \<and>
        invoke model (logical_input m) = Some r \<and>
        st' = st\<lparr>messages := messages st @ [r]\<rparr>)"
  by (auto simp: logicalNode_def model_invoke_def split: option.splits sum.splits)

lemma emotionalNode_Inr:
  "emotionalNode model st = Inr st' \<longleftrightarrow>
     (\<exists>m r. last_message (messages st) = Some m \<and>
        invoke model (emotional_input m) = Some r \<and>
        st' = st\<lparr>messages := messages st @ [r]\<rparr>)"
  by (auto simp: emotionalNode_def model_invoke_def split: option.splits sum.splits)

lemma generalNode_Inr:
  "generalNode model st = Inr st' \<longleftrightarrow>
     (\<exists>m r. last_message (messages st) = Some m \<and>
        invoke model (general_input m) = Some r \<and>
        st' = st\<lparr>messages := messages st @ [r]\<rparr>)"
  by (auto simp: generalNode_def model_invoke_def split: option.splits sum.splits)

lemma contactNode_Inr:
  "contactNode model cs st = Inr st' \<longleftrightarrow>
     (\<exists>m r. last_message (messages st) = Some m \<and>
        invoke model (contact_input cs m) = Some r \<and>
        st' = st\<lparr>messages := messages st @ [r]\<rparr>)"
  by (auto simp: contactNode_def model_invoke_def split: option.splits sum.splits)

lemmas responder_Inr = logicalNode_Inr emotionalNode_Inr generalNode_Inr contactNode_Inr

lemma node_TypeError:
  "classifierNode model st = Inl TypeError \<longleftrightarrow> messages st = []"
  "classifierNode_index model st = Inl TypeError \<longleftrightarrow> messages st = []"
  "logicalNode model st = Inl TypeError \<longleftrightarrow> messages st = []"
  "emotionalNode model st = Inl TypeError \<longleftrightarrow> messages st = []"
  "generalNode model st = Inl TypeError \<longleftrightarrow> messages st = []"
  "contactNode model cs st = Inl TypeError \<longleftrightarrow> messages st = []"
  by (auto simp: classifierNode_def classifierNode_index_def logicalNode_def emotionalNode_def
      generalNode_def contactNode_def withStructuredOutput_def model_invoke_def
      last_message_def split: option.splits sum.splits if_splits)

subsection \<open>The two graphs as built\<close>

lemmas builder_defs =
  new_StateGraph_def addNode_def addEdge_def addConditionalEdges_def

lemma workflow_nodes:
  "nodes (workflow model cs) =
     [(''classifier'', classifierNode model), (''logical'', logicalNode model),
      (''emotional'', emotionalNode model), (''general'', generalNode model),
      (''contact_request'', contactNode model cs)]"
  by (simp add: workflow_def builder_defs)

lemma workflow_edges:
  "edges (workflow model cs) =
     [(START, ''classifier''), (''logical'', END), (''emotional'', END), (''general'', END),
      (''contact_request'', END)]"
  by (simp add: workflow_def builder_defs)

lemma workflow_branches:
  "branches (workflow model cs) = [(''classifier'', route, pathMap)]"
  by (simp add: workflow_def builder_defs)

lemma workflow_index_nodes:
  "nodes (workflow_index model) =
     [(''classifier'', classifierNode_index model), (''logical'', logicalNode model),
      (''emotional'', emotionalNode model), (''general'', generalNode model)]"
  by (simp add: workflow_index_def builder_defs)

lemma workflow_index_edges:
  "edges (workflow_index model) =
     [(START, ''classifier''), (''logical'', END), (''emotional'', END), (''general'', END)]"
  by (simp add: workflow_index_def builder_defs)

lemma workflow_index_branches:
  "branches (workflow_index model) = [(''classifier'', route, pathMap_index)]"
  by (simp add: workflow_index_def builder_defs)

lemma map_of_pathMap: "map_of pathMap l = (if l \<in> set schema then Some l else None)"
  by (simp add: pathMap_def schema_def)

lemma map_of_pathMap_index:
  "map_of pathMap_index l = (if l \<in> set schema_index then Some l else None)"
  by (simp add: pathMap_index_def schema_index_def)

lemma successor_START:
  "successor (workflow model cs) START st = Inr ''classifier''"
  "successor (workflow_index model) START st = Inr ''classifier''"
  by (simp_all add: successor_def workflow_edges workflow_index_edges)

lemma lookup_ends_pathMap:
  "lookup_ends pathMap l =
     (if l \<in> set schema then Found l
      else if l \<in> set object_prototype_keys then Inherited else NoEntry)"
  "lookup_ends pathMap_index l =
     (if l \<in> set schema_index then Found l
      else if l \<in> set object_prototype_keys then Inherited else NoEntry)"
  by (simp_all add: lookup_ends_def map_of_pathMap map_of_pathMap_index)

lemma successor_classifier:
  "successor (workflow model cs) ''classifier'' st =
     (if route st \<in> set schema then Inr (route st)
      else if route st \<in> set object_prototype_keys then Inl NotModelled
      else Inl UnknownDestination)"
  "successor (workflow_index model) ''classifier'' st =
     (if route st \<in> set schema_index then Inr (route st)
      else if route st \<in> set object_prototype_keys then Inl NotModelled
      else Inl UnknownDestination)"
  by (simp_all add: successor_def workflow_edges workflow_branches workflow_index_edges
      workflow_index_branches START_def lookup_ends_pathMap)

lemma successor_responder:
  "l \<in> set schema \<Longrightarrow> successor (workflow model cs) l st = Inr END"
  "l \<in> set schema_index \<Longrightarrow> successor (workflow_index model) l st = Inr END"
  by (auto simp add: successor_def workflow_edges workflow_index_edges START_def
      schema_def schema_index_def)

lemma map_of_nodes_workflow:
  "l \<in> set schema \<Longrightarrow> map_of (nodes (workflow model cs)) l =
     Some (if l = ''logical'' then logicalNode model
           else if l = ''emotional'' then emotionalNode model
           else if l = ''general'' then generalNode model
           else contactNode model cs)"
  by (auto simp: workflow_nodes schema_def)

lemma map_of_nodes_workflow_index:
  "l \<in> set schema_index \<Longrightarrow> map_of (nodes (workflow_index model)) l =
     Some (if l = ''logical'' then logicalNode model
           else if l = ''emotional'' then emotionalNode model
           else generalNode model)"
  by (auto simp: workflow_index_nodes schema_index_def)

lemma schema_not_END:
  "l \<in> set schema \<Longrightarrow> l \<noteq> END"
  "l \<in> set schema_index \<Longrightarrow> l \<noteq> END"
  by (auto simp: schema_def schema_index_def END_def)

subsection \<open>Identifiers and the merge\<close>

lemma assign_ids_unchanged:
  "\<forall>m \<in> set ms. message_id m \<noteq> None \<Longrightarrow> assign_ids uuid k ms = ms"
  by (induction ms arbitrary: k) (auto split: option.splits)

lemma missing_ids_zero: "\<forall>m \<in> set ms. message_id m \<noteq> None \<Longrightarrow> missing_ids ms = 0"
  by (simp add: missing_ids_def filter_empty_conv)

lemma assign_ids_Some: "m \<in> set (assign_ids uuid k ms) \<Longrightarrow> message_id m \<noteq> None"
  by (induction ms arbitrary: k) (auto split: option.splits)

lemma assign_ids_length [simp]: "length (assign_ids uuid k ms) = length ms"
  by (induction ms arbitrary: k) (auto split: option.splits)

lemma assign_ids_Nil [simp]: "assign_ids uuid k ms = [] \<longleftrightarrow> ms = []"
  by (cases ms) (auto split: option.splits)

lemma assign_ids_content [simp]: "map content (assign_ids uuid k ms) = map content ms"
  by (induction ms arbitrary: k) (auto split: option.splits)

lemma assign_ids_append:
  "assign_ids uuid k (xs @ ys) = assign_ids uuid k xs @ assign_ids uuid (k + missing_ids xs) ys"
  by (induction xs arbitrary: k) (auto simp: missing_ids_def split: option.splits)

lemma merge_message_fresh:
  "message_id m \<notin> set (map message_id xs) \<Longrightarrow> merge_message xs m = xs @ [m]"
  by (induction xs) auto

lemma merge_message_ids:
  "map message_id (merge_message xs m) =
     (if message_id m \<in> set (map message_id xs) then map message_id xs
      else map message_id xs @ [message_id m])"
  by (induction xs) auto

lemma merge_message_replace:
  "distinct (map message_id xs) \<Longrightarrow> i < length xs \<Longrightarrow> message_id (xs ! i) = message_id m \<Longrightarrow>
     merge_message xs m = xs[i := m]"
proof (induction xs arbitrary: i)
  case Nil
  then show ?case by simp
next
  case (Cons x xs)
  show ?case
  proof (cases i)
    case 0
    with Cons.prems show ?thesis by auto
  next
    case (Suc j)
    with Cons.prems have "message_id m \<in> set (map message_id xs)"
      by (auto simp: in_set_conv_nth intro!: image_eqI [where x = "xs ! j"])
    with Cons Suc show ?thesis by auto
  qed
qed

lemma merge_message_self:
  "distinct (map message_id xs) \<Longrightarrow> x \<in> set xs \<Longrightarrow> merge_message xs x = xs"
proof -
  assume d: "distinct (map message_id xs)" and "x \<in> set xs"
  then obtain i where i: "i < length xs" "xs ! i = x" by (auto simp: in_set_conv_nth)
  then have "merge_message xs x = xs[i := x]"
    using merge_message_replace [OF d, of i x] by simp
  with i show ?thesis by (metis list_update_id)
qed

lemma merge_message_not_Nil [simp]: "merge_message xs m \<noteq> []"
  by (cases xs) auto

lemma merge_message_distinct:
  "distinct (map message_id xs) \<Longrightarrow> distinct (map message_id (merge_message xs m))"
  by (simp add: merge_message_ids)

lemma merge_message_Some:
  "\<forall>x \<in> set xs. message_id x \<noteq> None \<Longrightarrow> message_id m \<noteq> None \<Longrightarrow>
     \<forall>x \<in> set (merge_message xs m). message_id x \<noteq> None"
proof -
  assume a: "\<forall>x \<in> set xs. message_id x \<noteq> None" and m: "message_id m \<noteq> None"
  then have "None \<notin> set (map message_id (merge_message xs m))"
    by (auto simp: merge_message_ids)
  then show ?thesis by (metis image_eqI set_map)
qed

lemma foldl_merge_self:
  "distinct (map message_id xs) \<Longrightarrow> set ys \<subseteq> set xs \<Longrightarrow> foldl merge_message xs ys = xs"
  by (induction ys) (auto simp: merge_message_self)

lemma foldl_merge_distinct:
  "distinct (map message_id xs) \<Longrightarrow> distinct (map message_id (foldl merge_message xs ys))"
  by (induction ys arbitrary: xs) (auto simp: merge_message_distinct)

lemma foldl_merge_Some:
  "\<forall>x \<in> set xs. message_id x \<noteq> None \<Longrightarrow> \<forall>y \<in> set ys. message_id y \<noteq> None \<Longrightarrow>
     \<forall>x \<in> set (foldl merge_message xs ys). message_id x \<noteq> None"
proof (induction ys arbitrary: xs)
  case Nil
  then show ?case by simp
next
  case (Cons y ys)
  from Cons.prems have "\<forall>x \<in> set (merge_message xs y). message_id x \<noteq> None"
    by (intro merge_message_Some) auto
  with Cons show ?case by simp
qed

lemma foldl_merge_not_Nil: "xs \<noteq> [] \<or> ys \<noteq> [] \<Longrightarrow> foldl merge_message xs ys \<noteq> []"
proof (induction ys arbitrary: xs)
  case Nil
  then show ?case by simp
next
  case (Cons y ys)
  have "merge_message xs y \<noteq> []" by simp
  with Cons.IH [of "merge_message xs y"] show ?case by simp
qed

lemma foldl_merge_fresh:
  "distinct (map message_id ys) \<Longrightarrow> set (map message_id ys) \<inter> set (map message_id xs) = {} \<Longrightarrow>
     foldl merge_message xs ys = xs @ ys"
proof (induction ys arbitrary: xs)
  case Nil
  then show ?case by simp
next
  case (Cons y ys)
  from Cons.prems have f: "message_id y \<notin> set (map message_id xs)" by auto
  then have m: "merge_message xs y = xs @ [y]" by (rule merge_message_fresh)
  from Cons.prems have "set (map message_id ys) \<inter> set (map message_id (xs @ [y])) = {}"
    by auto
  with Cons.IH [of "xs @ [y]"] Cons.prems m show ?case by simp
qed

text \<open>The channels after the argument of the invocation is written to them.\<close>

lemma graph_input_messages:
  "messages (graph_input uuid st) = foldl merge_message [] (assign_ids uuid 0 (messages st))"
  by (simp add: graph_input_def apply_update_def messagesStateReducer_def missing_ids_def)

lemma graph_input_intent [simp]: "intent (graph_input uuid st) = intent st"
  by (simp add: graph_input_def apply_update_def)

lemma graph_input_Some: "\<forall>m \<in> set (messages (graph_input uuid st)). message_id m \<noteq> None"
  unfolding graph_input_messages
  by (rule foldl_merge_Some) (auto dest: assign_ids_Some)

lemma graph_input_distinct: "distinct (map message_id (messages (graph_input uuid st)))"
  unfolding graph_input_messages by (rule foldl_merge_distinct) simp

lemma graph_input_not_Nil: "messages st \<noteq> [] \<Longrightarrow> messages (graph_input uuid st) \<noteq> []"
  unfolding graph_input_messages by (rule foldl_merge_not_Nil) simp

lemma graph_input_fresh:
  "distinct (map message_id (assign_ids uuid 0 (messages st))) \<Longrightarrow>
     messages (graph_input uuid st) = assign_ids uuid 0 (messages st)"
  unfolding graph_input_messages using foldl_merge_fresh [of _ "[]"] by simp

text \<open>Writing the return value of the classifier and of a responder.\<close>

lemma apply_update_intent:
  assumes "\<forall>m \<in> set (messages st). message_id m \<noteq> None"
    and "distinct (map message_id (messages st))"
  shows "apply_update uuid c st (st\<lparr>intent := x\<rparr>) = st\<lparr>intent := x\<rparr>"
    and "ids_used c st (st\<lparr>intent := x\<rparr>) = c"
  using assms
  by (simp_all add: apply_update_def messagesStateReducer_def ids_used_def
      assign_ids_unchanged missing_ids_zero foldl_merge_self)

lemma apply_update_append:
  assumes s: "\<forall>m \<in> set (messages st). message_id m \<noteq> None"
    and d: "distinct (map message_id (messages st))"
  shows "apply_update uuid c st (st\<lparr>messages := messages st @ [r]\<rparr>) =
     st\<lparr>messages := merge_message (messages st) (with_id uuid c r)\<rparr>"
proof -
  have "assign_ids uuid c (messages st @ [r]) = messages st @ [with_id uuid c r]"
    using s by (simp add: assign_ids_append assign_ids_unchanged missing_ids_zero with_id_def
        split: option.split)
  moreover have "foldl merge_message (messages st) (messages st) = messages st"
    using d by (simp add: foldl_merge_self)
  ultimately show ?thesis
    using s by (simp add: apply_update_def messagesStateReducer_def assign_ids_unchanged
        missing_ids_zero)
qed

subsection \<open>Running a graph\<close>

lemma run_from_END: "run_from g uuid c k END st = ([], Inr st)"
  by simp

lemma run_from_step:
  "n \<noteq> END \<Longrightarrow> 0 < k \<Longrightarrow> run_from g uuid c k n st =
     (case map_of (nodes g) n of
        None \<Rightarrow> ([], Inl UnknownNode)
      | Some f \<Rightarrow>
          (case f st of
             Inl e \<Rightarrow> ([n], Inl e)
           | Inr upd \<Rightarrow>
               (case successor g n (apply_update uuid c st upd) of
                  Inl e \<Rightarrow> ([n], Inl e)
                | Inr d \<Rightarrow>
                    (case run_from g uuid (ids_used c st upd) (k - 1) d (apply_update uuid c st upd) of
                       (tr, r) \<Rightarrow> (n # tr, r)))))"
proof -
  assume ne: "n \<noteq> END" and "0 < k"
  then obtain k' where k': "k = Suc k'" by (cases k) auto
  show ?thesis unfolding k' diff_Suc_1 using ne by simp
qed

declare run_from.simps [simp del]

lemma run_from_last_step:
  assumes ne: "n \<noteq> END" and k: "0 < k" and f: "map_of (nodes g) n = Some f"
    and e: "\<And>s. successor g n s = Inr END"
  shows "run_from g uuid c k n st =
     (case f st of Inl e \<Rightarrow> ([n], Inl e) | Inr upd \<Rightarrow> ([n], Inr (apply_update uuid c st upd)))"
  by (simp only: run_from_step [OF ne k] f option.case e sum.case run_from_END prod.case
      split: sum.split)

subsection \<open>One invocation of the graph\<close>

lemma graph_input_Nil: "messages st = [] \<Longrightarrow> messages (graph_input uuid st) = []"
  by (simp add: graph_input_messages)

lemma app_invoke_unfold:
  "app_invoke uuid model cs st =
     (case classifierNode model (graph_input uuid st) of
        Inl e \<Rightarrow> ([''classifier''], Inl e)
      | Inr upd \<Rightarrow>
          (case successor (workflow model cs) ''classifier''
                  (apply_update uuid (missing_ids (messages st)) (graph_input uuid st) upd) of
             Inl e \<Rightarrow> ([''classifier''], Inl e)
           | Inr d \<Rightarrow>
               (case run_from (workflow model cs) uuid
                       (ids_used (missing_ids (messages st)) (graph_input uuid st) upd) 24 d
                       (apply_update uuid (missing_ids (messages st)) (graph_input uuid st) upd) of
                  (tr, r) \<Rightarrow> (''classifier'' # tr, r))))"
proof -
  have ne: "''classifier'' \<noteq> END" by (simp add: END_def)
  show ?thesis
    by (simp add: app_invoke_def graph_invoke_def recursionLimit_def successor_START
        run_from_step [OF ne, of 25] workflow_nodes split: sum.split)
qed

lemma app_invoke_index_unfold:
  "app_invoke_index uuid model st =
     (case classifierNode_index model (graph_input uuid st) of
        Inl e \<Rightarrow> ([''classifier''], Inl e)
      | Inr upd \<Rightarrow>
          (case successor (workflow_index model) ''classifier''
                  (apply_update uuid (missing_ids (messages st)) (graph_input uuid st) upd) of
             Inl e \<Rightarrow> ([''classifier''], Inl e)
           | Inr d \<Rightarrow>
               (case run_from (workflow_index model) uuid
                       (ids_used (missing_ids (messages st)) (graph_input uuid st) upd) 24 d
                       (apply_update uuid (missing_ids (messages st)) (graph_input uuid st) upd) of
                  (tr, r) \<Rightarrow> (''classifier'' # tr, r))))"
proof -
  have ne: "''classifier'' \<noteq> END" by (simp add: END_def)
  show ?thesis
    by (simp add: app_invoke_index_def graph_invoke_def recursionLimit_def successor_START
        run_from_step [OF ne, of 25] workflow_index_nodes split: sum.split)
qed

lemma app_invoke_classifier_fails:
  "classifierNode model (graph_input uuid st) = Inl e \<Longrightarrow>
     app_invoke uuid model cs st = ([''classifier''], Inl e)"
  "classifierNode_index model (graph_input uuid st) = Inl e \<Longrightarrow>
     app_invoke_index uuid model st = ([''classifier''], Inl e)"
  by (simp_all add: app_invoke_unfold app_invoke_index_unfold)

text \<open>After the classifier has stored the label \<open>l\<close>, the responder bound to \<open>l\<close> runs on
  the state with that label, and its return value is written to the channels.\<close>

lemma app_invoke_classified:
  assumes l: "l \<in> set schema"
    and f: "map_of (nodes (workflow model cs)) l = Some f"
    and c: "classifierNode model (graph_input uuid st) = Inr ((graph_input uuid st)\<lparr>intent := Some l\<rparr>)"
  shows "app_invoke uuid model cs st =
       (case f ((graph_input uuid st)\<lparr>intent := Some l\<rparr>) of
          Inl e \<Rightarrow> ([''classifier'', l], Inl e)
        | Inr upd \<Rightarrow>
            ([''classifier'', l],
             Inr (apply_update uuid (missing_ids (messages st))
                    ((graph_input uuid st)\<lparr>intent := Some l\<rparr>) upd)))"
proof -
  note u = apply_update_intent [OF graph_input_Some graph_input_distinct]
  have "run_from (workflow model cs) uuid (missing_ids (messages st)) 24 l
          ((graph_input uuid st)\<lparr>intent := Some l\<rparr>) =
      (case f ((graph_input uuid st)\<lparr>intent := Some l\<rparr>) of
         Inl e \<Rightarrow> ([l], Inl e)
       | Inr upd \<Rightarrow>
           ([l], Inr (apply_update uuid (missing_ids (messages st))
                        ((graph_input uuid st)\<lparr>intent := Some l\<rparr>) upd)))"
    by (rule run_from_last_step [OF schema_not_END(1) [OF l] _ f successor_responder(1) [OF l]])
      simp
  then show ?thesis
    using l by (simp add: app_invoke_unfold c u successor_classifier route_def split: sum.split)
qed

lemma app_invoke_index_classified:
  assumes l: "l \<in> set schema_index"
    and f: "map_of (nodes (workflow_index model)) l = Some f"
    and c: "classifierNode_index model (graph_input uuid st) =
      Inr ((graph_input uuid st)\<lparr>intent := Some l\<rparr>)"
  shows "app_invoke_index uuid model st =
       (case f ((graph_input uuid st)\<lparr>intent := Some l\<rparr>) of
          Inl e \<Rightarrow> ([''classifier'', l], Inl e)
        | Inr upd \<Rightarrow>
            ([''classifier'', l],
             Inr (apply_update uuid (missing_ids (messages st))
                    ((graph_input uuid st)\<lparr>intent := Some l\<rparr>) upd)))"
proof -
  note u = apply_update_intent [OF graph_input_Some graph_input_distinct]
  have "run_from (workflow_index model) uuid (missing_ids (messages st)) 24 l
          ((graph_input uuid st)\<lparr>intent := Some l\<rparr>) =
      (case f ((graph_input uuid st)\<lparr>intent := Some l\<rparr>) of
         Inl e \<Rightarrow> ([l], Inl e)
       | Inr upd \<Rightarrow>
           ([l], Inr (apply_update uuid (missing_ids (messages st))
                        ((graph_input uuid st)\<lparr>intent := Some l\<rparr>) upd)))"
    by (rule run_from_last_step [OF schema_not_END(2) [OF l] _ f successor_responder(2) [OF l]])
      simp
  then show ?thesis
    using l
    by (simp add: app_invoke_index_unfold c u successor_classifier route_def split: sum.split)
qed

text \<open>Every invocation: the classifier first, then at most one responder.\<close>

lemma app_invoke_trace:
  "fst (app_invoke uuid model cs st) = [''classifier''] \<or>
   (\<exists>l \<in> set schema. fst (app_invoke uuid model cs st) = [''classifier'', l])"
proof (cases "classifierNode model (graph_input uuid st)")
  case (Inl e)
  then show ?thesis by (simp add: app_invoke_classifier_fails)
next
  case (Inr upd)
  then obtain l where l: "l \<in> set schema" and s: "upd = (graph_input uuid st)\<lparr>intent := Some l\<rparr>"
    by (auto simp: classifierNode_Inr)
  show ?thesis
    using l app_invoke_classified [OF l map_of_nodes_workflow [OF l] Inr [unfolded s]]
    by (auto split: sum.splits)
qed

lemma app_invoke_index_trace:
  "fst (app_invoke_index uuid model st) = [''classifier''] \<or>
   (\<exists>l \<in> set schema_index. fst (app_invoke_index uuid model st) = [''classifier'', l])"
proof (cases "classifierNode_index model (graph_input uuid st)")
  case (Inl e)
  then show ?thesis by (simp add: app_invoke_classifier_fails)
next
  case (Inr upd)
  then obtain l where l: "l \<in> set schema_index"
    and s: "upd = (graph_input uuid st)\<lparr>intent := Some l\<rparr>"
    by (auto simp: classifierNode_index_Inr)
  show ?thesis
    using l app_invoke_index_classified [OF l map_of_nodes_workflow_index [OF l] Inr [unfolded s]]
    by (auto split: sum.splits)
qed

text \<open>What a responder's return value becomes in the channels.\<close>

lemma responder_update:
  assumes l: "l \<in> set schema \<and> map_of (nodes (workflow model cs)) l = Some f \<or>
      l \<in> set schema_index \<and> map_of (nodes (workflow_index model)) l = Some f"
    and r: "f ((graph_input uuid st)\<lparr>intent := x\<rparr>) = Inr upd"
  shows "\<exists>r. apply_update uuid c ((graph_input uuid st)\<lparr>intent := x\<rparr>) upd =
           \<lparr>messages = merge_message (messages (graph_input uuid st)) (with_id uuid c r), intent = x\<rparr>"
proof -
  let ?s = "(graph_input uuid st)\<lparr>intent := x\<rparr>"
  from l r obtain r' where u: "upd = ?s\<lparr>messages := messages ?s @ [r']\<rparr>"
    by (auto simp: workflow_nodes workflow_index_nodes schema_def schema_index_def responder_Inr)
  have s: "\<forall>m \<in> set (messages ?s). message_id m \<noteq> None"
    and d: "distinct (map message_id (messages ?s))"
    using graph_input_Some [of uuid st] graph_input_distinct [of uuid st] by simp_all
  show ?thesis
    unfolding u apply_update_append [OF s d] by (intro exI [of _ r']) simp
qed

text \<open>A returning invocation: the label, the trace and the final state.\<close>

lemma app_invoke_Inr:
  assumes "app_invoke uuid model cs st = (tr, Inr st')"
  shows "\<exists>l r. l \<in> set schema \<and> tr = [''classifier'', l] \<and> messages st \<noteq> [] \<and>
           structured_output model schema
             (classifier_input (last (messages (graph_input uuid st)))) = Some l \<and>
           st' = \<lparr>messages = merge_message (messages (graph_input uuid st))
                     (with_id uuid (missing_ids (messages st)) r),
                  intent = Some l\<rparr>"
proof (cases "classifierNode model (graph_input uuid st)")
  case (Inl e)
  with assms show ?thesis by (simp add: app_invoke_classifier_fails)
next
  case (Inr upd)
  then obtain m l where m: "last_message (messages (graph_input uuid st)) = Some m"
    and so: "structured_output model schema (classifier_input m) = Some l"
    and l: "l \<in> set schema" and s: "upd = (graph_input uuid st)\<lparr>intent := Some l\<rparr>"
    by (auto simp: classifierNode_Inr)
  from m have ne: "messages st \<noteq> []"
    using graph_input_Nil [of st uuid] by (auto simp: last_message_Some)
  note f = map_of_nodes_workflow [OF l, of model cs]
  from app_invoke_classified [OF l f Inr [unfolded s]] assms
  obtain u where fu: "(if l = ''logical'' then logicalNode model
           else if l = ''emotional'' then emotionalNode model
           else if l = ''general'' then generalNode model
           else contactNode model cs) ((graph_input uuid st)\<lparr>intent := Some l\<rparr>) = Inr u"
    and tr: "tr = [''classifier'', l]"
    and st': "st' = apply_update uuid (missing_ids (messages st))
        ((graph_input uuid st)\<lparr>intent := Some l\<rparr>) u"
    by (auto split: sum.splits)
  from responder_update [OF disjI1 [OF conjI [OF l f]] fu] st' tr l ne m so
  show ?thesis by (auto simp: last_message_Some)
qed

lemma app_invoke_index_Inr:
  assumes "app_invoke_index uuid model st = (tr, Inr st')"
  shows "\<exists>l r. l \<in> set schema_index \<and> tr = [''classifier'', l] \<and> messages st \<noteq> [] \<and>
           structured_output model schema_index
             (classifier_input_index (last (messages (graph_input uuid st)))) = Some l \<and>
           st' = \<lparr>messages = merge_message (messages (graph_input uuid st))
                     (with_id uuid (missing_ids (messages st)) r),
                  intent = Some l\<rparr>"
proof (cases "classifierNode_index model (graph_input uuid st)")
  case (Inl e)
  with assms show ?thesis by (simp add: app_invoke_classifier_fails)
next
  case (Inr upd)
  then obtain m l where m: "last_message (messages (graph_input uuid st)) = Some m"
    and so: "structured_output model schema_index (classifier_input_index m) = Some l"
    and l: "l \<in> set schema_index" and s: "upd = (graph_input uuid st)\<lparr>intent := Some l\<rparr>"
    by (auto simp: classifierNode_index_Inr)
  from m have ne: "messages st \<noteq> []"
    using graph_input_Nil [of st uuid] by (auto simp: last_message_Some)
  note f = map_of_nodes_workflow_index [OF l, of model]
  from app_invoke_index_classified [OF l f Inr [unfolded s]] assms
  obtain u where fu: "(if l = ''logical'' then logicalNode model
           else if l = ''emotional'' then emotionalNode model
           else generalNode model) ((graph_input uuid st)\<lparr>intent := Some l\<rparr>) = Inr u"
    and tr: "tr = [''classifier'', l]"
    and st': "st' = apply_update uuid (missing_ids (messages st))
        ((graph_input uuid st)\<lparr>intent := Some l\<rparr>) u"
    by (auto split: sum.splits)
  from responder_update [OF disjI2 [OF conjI [OF l f]] fu] st' tr l ne m so
  show ?thesis by (auto simp: last_message_Some)
qed

lemma responder_no_TypeError:
  "l \<in> set schema \<Longrightarrow> map_of (nodes (workflow model cs)) l = Some f \<Longrightarrow>
     messages s \<noteq> [] \<Longrightarrow> f s \<noteq> Inl TypeError"
  "l \<in> set schema_index \<Longrightarrow> map_of (nodes (workflow_index model)) l = Some f \<Longrightarrow>
     messages s \<noteq> [] \<Longrightarrow> f s \<noteq> Inl TypeError"
  by (auto simp: workflow_nodes workflow_index_nodes schema_def schema_index_def node_TypeError)

lemma app_invoke_no_TypeError:
  assumes ne: "messages st \<noteq> []"
  shows "snd (app_invoke uuid model cs st) \<noteq> Inl TypeError"
proof (cases "classifierNode model (graph_input uuid st)")
  case (Inl e)
  from ne have "messages (graph_input uuid st) \<noteq> []" by (rule graph_input_not_Nil)
  then have "e \<noteq> TypeError" using Inl node_TypeError(1) [of model "graph_input uuid st"] by auto
  with Inl show ?thesis by (simp add: app_invoke_classifier_fails)
next
  case (Inr upd)
  then obtain l where l: "l \<in> set schema" and s: "upd = (graph_input uuid st)\<lparr>intent := Some l\<rparr>"
    by (auto simp: classifierNode_Inr)
  obtain f where f: "map_of (nodes (workflow model cs)) l = Some f"
    using map_of_nodes_workflow [OF l] by blast
  from ne have "f ((graph_input uuid st)\<lparr>intent := Some l\<rparr>) \<noteq> Inl TypeError"
    by (intro responder_no_TypeError(1) [OF l f]) (simp add: graph_input_not_Nil)
  then show ?thesis
    using app_invoke_classified [OF l f Inr [unfolded s]]
    by (simp split: sum.splits)
qed

lemma app_invoke_index_no_TypeError:
  assumes ne: "messages st \<noteq> []"
  shows "snd (app_invoke_index uuid model st) \<noteq> Inl TypeError"
proof (cases "classifierNode_index model (graph_input uuid st)")
  case (Inl e)
  from ne have "messages (graph_input uuid st) \<noteq> []" by (rule graph_input_not_Nil)
  then have "e \<noteq> TypeError"
    using Inl node_TypeError(2) [of model "graph_input uuid st"] by auto
  with Inl show ?thesis by (simp add: app_invoke_classifier_fails)
next
  case (Inr upd)
  then obtain l where l: "l \<in> set schema_index"
    and s: "upd = (graph_input uuid st)\<lparr>intent := Some l\<rparr>"
    by (auto simp: classifierNode_index_Inr)
  obtain f where f: "map_of (nodes (workflow_index model)) l = Some f"
    using map_of_nodes_workflow_index [OF l] by blast
  from ne have "f ((graph_input uuid st)\<lparr>intent := Some l\<rparr>) \<noteq> Inl TypeError"
    by (intro responder_no_TypeError(2) [OF l f]) (simp add: graph_input_not_Nil)
  then show ?thesis
    using app_invoke_index_classified [OF l f Inr [unfolded s]]
    by (simp split: sum.splits)
qed

subsection \<open>The run loop\<close>

lemma app_ok_app_invoke: "app_ok (\<lambda>t. app_invoke (uuids t) (models t) cs)"
  unfolding app_ok_def
proof (intro allI impI conjI)
  fix t and st :: ChatState assume "messages st \<noteq> []"
  then show "snd (app_invoke (uuids t) (models t) cs st) \<noteq> Inl TypeError"
    by (rule app_invoke_no_TypeError)
next
  fix t and st st' :: ChatState assume "snd (app_invoke (uuids t) (models t) cs st) = Inr st'"
  then have "app_invoke (uuids t) (models t) cs st =
      (fst (app_invoke (uuids t) (models t) cs st), Inr st')"
    by (metis prod.collapse)
  from app_invoke_Inr [OF this] show "messages st' \<noteq> []"
    by auto
qed

lemma app_ok_app_invoke_index: "app_ok (\<lambda>t. app_invoke_index (uuids t) (models t))"
  unfolding app_ok_def
proof (intro allI impI conjI)
  fix t and st :: ChatState assume "messages st \<noteq> []"
  then show "snd (app_invoke_index (uuids t) (models t) st) \<noteq> Inl TypeError"
    by (rule app_invoke_index_no_TypeError)
next
  fix t and st st' :: ChatState assume "snd (app_invoke_index (uuids t) (models t) st) = Inr st'"
  then have "app_invoke_index (uuids t) (models t) st =
      (fst (app_invoke_index (uuids t) (models t) st), Inr st')"
    by (metis prod.collapse)
  from app_invoke_index_Inr [OF this] show "messages st' \<noteq> []"
    by auto
qed

lemma push_user_messages: "messages (push_user st userInput) = messages st @ [HumanMessage userInput]"
  by (simp add: push_user_def)

lemma main_loop_exit:
  "toLowerCase userInput = ''exit'' \<Longrightarrow>
     main_loop app t p (userInput # rest) = Exited (p\<lparr>events := events p @ [Bye]\<rparr>)"
  by simp

text \<open>One iteration on a line that is not the exit command, by the three ways it can go.\<close>

lemma main_loop_turn:
  assumes ne: "toLowerCase userInput \<noteq> ''exit''"
  shows "(\<exists>e. snd (app t (push_user (state p) userInput)) = Inl e \<and>
            main_loop app t p (userInput # rest) =
              Crashed e (events p @ map Ran (fst (app t (push_user (state p) userInput))))) \<or>
         (\<exists>st'. snd (app t (push_user (state p) userInput)) = Inr st' \<and>
            messages st' = [] \<and>
            main_loop app t p (userInput # rest) =
              Crashed TypeError
                (events p @ map Ran (fst (app t (push_user (state p) userInput))))) \<or>
         (\<exists>st'. snd (app t (push_user (state p) userInput)) = Inr st' \<and>
            messages st' \<noteq> [] \<and>
            main_loop app t p (userInput # rest) =
              main_loop app (Suc t)
                \<lparr>state = st',
                 events = events p @ map Ran (fst (app t (push_user (state p) userInput)))
                     @ [Bot (content (last (messages st')))]\<rparr> rest)"
proof -
  obtain tr r where a: "app t (push_user (state p) userInput) = (tr, r)"
    by (cases "app t (push_user (state p) userInput)")
  show ?thesis
  proof (cases r)
    case (Inl e)
    with ne a show ?thesis by simp
  next
    case (Inr st')
    show ?thesis
    proof (cases "messages st' = []")
      case True
      with ne a Inr show ?thesis by (simp add: last_message_def)
    next
      case False
      with ne a Inr show ?thesis by (simp add: last_message_def last_conv_nth)
    qed
  qed
qed

lemma main_loop_events_prefix: "prefix (events p) (outcome_events (main_loop app t p inputs))"
proof (induction inputs arbitrary: t p)
  case Nil
  show ?case by simp
next
  case (Cons userInput rest)
  show ?case
  proof (cases "toLowerCase userInput = ''exit''")
    case True
    then show ?thesis by simp
  next
    case False
    from main_loop_turn [OF False, of app t p rest] show ?thesis
    proof (elim disjE exE conjE)
      fix st'
      assume m: "main_loop app t p (userInput # rest) =
        main_loop app (Suc t)
          \<lparr>state = st',
           events = events p @ map Ran (fst (app t (push_user (state p) userInput)))
               @ [Bot (content (last (messages st')))]\<rparr> rest"
      have "prefix (events p) (events \<lparr>state = st',
           events = events p @ map Ran (fst (app t (push_user (state p) userInput)))
               @ [Bot (content (last (messages st')))]\<rparr>)"
        by simp
      from prefix_order.trans [OF this Cons.IH] m show ?thesis by simp
    qed simp_all
  qed
qed

lemma main_loop_no_TypeError:
  assumes ok: "app_ok app"
  shows "main_loop app t p inputs \<noteq> Crashed TypeError evs"
proof (induction inputs arbitrary: t p)
  case Nil
  show ?case by simp
next
  case (Cons userInput rest)
  show ?case
  proof (cases "toLowerCase userInput = ''exit''")
    case True
    then show ?thesis by simp
  next
    case False
    have ne: "messages (push_user (state p) userInput) \<noteq> []"
      by (simp add: push_user_messages)
    from ok ne have nt: "snd (app t (push_user (state p) userInput)) \<noteq> Inl TypeError"
      unfolding app_ok_def by blast
    have grow: "messages st' \<noteq> []"
      if r: "snd (app t (push_user (state p) userInput)) = Inr st'" for st'
      using ok ne r unfolding app_ok_def by blast
    from main_loop_turn [OF False, of app t p rest] show ?thesis
    proof (elim disjE exE conjE)
      fix e
      assume "snd (app t (push_user (state p) userInput)) = Inl e"
        and "main_loop app t p (userInput # rest) =
          Crashed e (events p @ map Ran (fst (app t (push_user (state p) userInput))))"
      with nt show ?thesis by auto
    next
      fix st'
      assume "snd (app t (push_user (state p) userInput)) = Inr st'"
        and "messages st' = []"
      with grow show ?thesis by blast
    next
      fix st'
      assume "main_loop app t p (userInput # rest) =
        main_loop app (Suc t)
          \<lparr>state = st',
           events = events p @ map Ran (fst (app t (push_user (state p) userInput)))
               @ [Bot (content (last (messages st')))]\<rparr> rest"
      with Cons.IH show ?thesis by simp
    qed
  qed
qed

subsection \<open>Lower-casing\<close>

lemma toLowerCase_char_e:
  "toLowerCase_char c = CHR ''e'' \<longleftrightarrow> c = CHR ''e'' \<or> c = CHR ''E''"
  by (cases c) (auto simp: toLowerCase_char_def is_upper_def Let_def split: if_splits)

lemma toLowerCase_char_x:
  "toLowerCase_char c = CHR ''x'' \<longleftrightarrow> c = CHR ''x'' \<or> c = CHR ''X''"
  by (cases c) (auto simp: toLowerCase_char_def is_upper_def Let_def split: if_splits)

lemma toLowerCase_char_i:
  "toLowerCase_char c = CHR ''i'' \<longleftrightarrow> c = CHR ''i'' \<or> c = CHR ''I''"
  by (cases c) (auto simp: toLowerCase_char_def is_upper_def Let_def split: if_splits)

lemma toLowerCase_char_t:
  "toLowerCase_char c = CHR ''t'' \<longleftrightarrow> c = CHR ''t'' \<or> c = CHR ''T''"
  by (cases c) (auto simp: toLowerCase_char_def is_upper_def Let_def split: if_splits)

lemma toLowerCase_exit:
  "toLowerCase s = ''exit'' \<longleftrightarrow>
     (\<exists>a b c d. s = [a, b, c, d] \<and> a \<in> {CHR ''e'', CHR ''E''} \<and> b \<in> {CHR ''x'', CHR ''X''} \<and>
        c \<in> {CHR ''i'', CHR ''I''} \<and> d \<in> {CHR ''t'', CHR ''T''})"
proof
  assume "toLowerCase s = ''exit''"
  then obtain a b c d where s: "s = [a, b, c, d]"
    and "toLowerCase_char a = CHR ''e''" "toLowerCase_char b = CHR ''x''"
    "toLowerCase_char c = CHR ''i''" "toLowerCase_char d = CHR ''t''"
    by (auto simp: toLowerCase_def map_eq_Cons_conv)
  then show "\<exists>a b c d. s = [a, b, c, d] \<and> a \<in> {CHR ''e'', CHR ''E''} \<and>
      b \<in> {CHR ''x'', CHR ''X''} \<and> c \<in> {CHR ''i'', CHR ''I''} \<and> d \<in> {CHR ''t'', CHR ''T''}"
    by (simp add: toLowerCase_char_e toLowerCase_char_x toLowerCase_char_i toLowerCase_char_t)
next
  assume "\<exists>a b c d. s = [a, b, c, d] \<and> a \<in> {CHR ''e'', CHR ''E''} \<and>
      b \<in> {CHR ''x'', CHR ''X''} \<and> c \<in> {CHR ''i'', CHR ''I''} \<and> d \<in> {CHR ''t'', CHR ''T''}"
  then obtain a b c d where s: "s = [a, b, c, d]"
    and "toLowerCase_char a = CHR ''e''" "toLowerCase_char b = CHR ''x''"
    "toLowerCase_char c = CHR ''i''" "toLowerCase_char d = CHR ''t''"
    by (auto simp only: toLowerCase_char_e toLowerCase_char_x toLowerCase_char_i
        toLowerCase_char_t insert_iff empty_iff)
  then show "toLowerCase s = ''exit''"
    by (simp add: toLowerCase_def)
qed

subsection \<open>How an invocation can end\<close>

lemma node_errors:
  "classifierNode model st = Inl e \<Longrightarrow> e \<in> {TypeError, CallFailed, OutputParseError}"
  "classifierNode_index model st = Inl e \<Longrightarrow> e \<in> {TypeError, CallFailed, OutputParseError}"
  "logicalNode model st = Inl e \<Longrightarrow> e \<in> {TypeError, CallFailed}"
  "emotionalNode model st = Inl e \<Longrightarrow> e \<in> {TypeError, CallFailed}"
  "generalNode model st = Inl e \<Longrightarrow> e \<in> {TypeError, CallFailed}"
  "contactNode model cs st = Inl e \<Longrightarrow> e \<in> {TypeError, CallFailed}"
  by (auto simp: classifierNode_def classifierNode_index_def logicalNode_def emotionalNode_def
      generalNode_def contactNode_def withStructuredOutput_def model_invoke_def
      split: option.splits sum.splits if_splits)

lemma responder_errors:
  "l \<in> set schema \<Longrightarrow> map_of (nodes (workflow model cs)) l = Some f \<Longrightarrow> f s = Inl e \<Longrightarrow>
     e \<in> {TypeError, CallFailed}"
  "l \<in> set schema_index \<Longrightarrow> map_of (nodes (workflow_index model)) l = Some f \<Longrightarrow>
     f s = Inl e \<Longrightarrow> e \<in> {TypeError, CallFailed}"
  using node_errors(3-5) [where model = model and st = s and e = e]
    node_errors(6) [where model = model and st = s and e = e and cs = cs]
  by (auto simp: workflow_nodes workflow_index_nodes schema_def schema_index_def)

lemma app_invoke_errors:
  assumes "snd (app_invoke uuid model cs st) = Inl e"
  shows "e \<in> {TypeError, CallFailed, OutputParseError}"
proof (cases "classifierNode model (graph_input uuid st)")
  case (Inl e')
  with assms node_errors(1) [OF Inl] show ?thesis by (simp add: app_invoke_classifier_fails)
next
  case (Inr upd)
  then obtain l where l: "l \<in> set schema" and s: "upd = (graph_input uuid st)\<lparr>intent := Some l\<rparr>"
    by (auto simp: classifierNode_Inr)
  obtain f where f: "map_of (nodes (workflow model cs)) l = Some f"
    using map_of_nodes_workflow [OF l] by blast
  from app_invoke_classified [OF l f Inr [unfolded s]] assms
  have "f ((graph_input uuid st)\<lparr>intent := Some l\<rparr>) = Inl e"
    by (auto split: sum.splits)
  from responder_errors(1) [OF l f this] show ?thesis by auto
qed

lemma app_invoke_index_errors:
  assumes "snd (app_invoke_index uuid model st) = Inl e"
  shows "e \<in> {TypeError, CallFailed, OutputParseError}"
proof (cases "classifierNode_index model (graph_input uuid st)")
  case (Inl e')
  with assms node_errors(2) [OF Inl] show ?thesis by (simp add: app_invoke_classifier_fails)
next
  case (Inr upd)
  then obtain l where l: "l \<in> set schema_index"
    and s: "upd = (graph_input uuid st)\<lparr>intent := Some l\<rparr>"
    by (auto simp: classifierNode_index_Inr)
  obtain f where f: "map_of (nodes (workflow_index model)) l = Some f"
    using map_of_nodes_workflow_index [OF l] by blast
  from app_invoke_index_classified [OF l f Inr [unfolded s]] assms
  have "f ((graph_input uuid st)\<lparr>intent := Some l\<rparr>) = Inl e"
    by (auto split: sum.splits)
  from responder_errors(2) [OF l f this] show ?thesis by auto
qed







lemma content_last_assign_ids:
  "ms \<noteq> [] \<Longrightarrow> content (last (assign_ids uuid k ms)) = content (last ms)"
proof -
  assume ne: "ms \<noteq> []"
  then have ne': "assign_ids uuid k ms \<noteq> []" by simp
  have "content (last (assign_ids uuid k ms)) = last (map content (assign_ids uuid k ms))"
    by (rule last_map [OF ne', symmetric])
  also have "\<dots> = last (map content ms)" by simp
  also have "\<dots> = content (last ms)" by (rule last_map [OF ne])
  finally show ?thesis .
qed

section \<open>The dispatcher\<close>

text \<open>
  C1. The dispatcher is the conditional edge that runs after the classifier: it applies
  the routing function to the state and looks the result up in the routing table. For
  every label of the enumeration it selects the node of the same name, and that name is
  bound to the responder of that name. A missing label (\<^verbatim>\<open>undefined\<close>) selects \<open>logical\<close>.
  A label that is present is never replaced by the routing function, and a label outside
  the enumeration is not routed to \<open>logical\<close>: when the external classification answers
  with one, the classifier rejects it, the invocation ends there with the parse failure,
  and no responder runs. So the state the dispatcher reads after the classifier always
  holds a label of the enumeration, the dispatcher selects the responder named by it, and
  no invocation ends for want of a destination. The same holds for the graph without the
  contact node and its three labels.
\<close>

theorem dispatcher_routes:
  "(intent st = Some l \<and> l \<in> set schema \<longrightarrow>
      successor (workflow model cs) ''classifier'' st = Inr l) \<and>
   (intent st = None \<longrightarrow> successor (workflow model cs) ''classifier'' st = Inr ''logical'') \<and>
   map_of (nodes (workflow model cs)) ''emotional'' = Some (emotionalNode model) \<and>
   map_of (nodes (workflow model cs)) ''logical'' = Some (logicalNode model) \<and>
   map_of (nodes (workflow model cs)) ''general'' = Some (generalNode model) \<and>
   map_of (nodes (workflow model cs)) ''contact_request'' = Some (contactNode model cs) \<and>
   (classifierNode model st = Inr st' \<longrightarrow>
      (\<exists>l' \<in> set schema. intent st' = Some l' \<and>
         successor (workflow model cs) ''classifier'' st' = Inr l')) \<and>
   (snd (app_invoke uuid model cs st) = Inl e \<longrightarrow> e \<in> {TypeError, CallFailed, OutputParseError}) \<and>
   (snd (app_invoke uuid model cs st) = Inr st' \<longrightarrow>
      (\<exists>l' \<in> set schema. intent st' = Some l' \<and>
         fst (app_invoke uuid model cs st) = [''classifier'', l'])) \<and>
   (intent st = Some l \<longrightarrow> route st = l) \<and>
   (messages st \<noteq> [] \<and>
    structured_output model schema
      (classifier_input (last (messages (graph_input uuid st)))) = Some l \<and>
    l \<notin> set schema \<longrightarrow>
      app_invoke uuid model cs st = ([''classifier''], Inl OutputParseError)) \<and>
   (intent st = Some l \<and> l \<in> set schema_index \<longrightarrow>
      successor (workflow_index model) ''classifier'' st = Inr l) \<and>
   (intent st = None \<longrightarrow> successor (workflow_index model) ''classifier'' st = Inr ''logical'') \<and>
   map_of (nodes (workflow_index model)) ''emotional'' = Some (emotionalNode model) \<and>
   map_of (nodes (workflow_index model)) ''logical'' = Some (logicalNode model) \<and>
   map_of (nodes (workflow_index model)) ''general'' = Some (generalNode model) \<and>
   (classifierNode_index model st = Inr st' \<longrightarrow>
      (\<exists>l' \<in> set schema_index. intent st' = Some l' \<and>
         successor (workflow_index model) ''classifier'' st' = Inr l')) \<and>
   (snd (app_invoke_index uuid model st) = Inl e \<longrightarrow>
      e \<in> {TypeError, CallFailed, OutputParseError}) \<and>
   (snd (app_invoke_index uuid model st) = Inr st' \<longrightarrow>
      (\<exists>l' \<in> set schema_index. intent st' = Some l' \<and>
         fst (app_invoke_index uuid model st) = [''classifier'', l'])) \<and>
   (messages st \<noteq> [] \<and>
    structured_output model schema_index
      (classifier_input_index (last (messages (graph_input uuid st)))) = Some l \<and>
    l \<notin> set schema_index \<longrightarrow>
      app_invoke_index uuid model st = ([''classifier''], Inl OutputParseError))"
proof -
  have u: "app_invoke uuid model cs st = ([''classifier''], Inl OutputParseError)"
    if "messages st \<noteq> [] \<and>
      structured_output model schema
        (classifier_input (last (messages (graph_input uuid st)))) = Some l \<and>
      l \<notin> set schema"
  proof -
    from that have "messages (graph_input uuid st) \<noteq> []" by (simp add: graph_input_not_Nil)
    with that have "classifierNode model (graph_input uuid st) = Inl OutputParseError"
      by (simp add: classifierNode_def withStructuredOutput_def last_message_def last_conv_nth)
    then show ?thesis by (rule app_invoke_classifier_fails)
  qed
  have ui: "app_invoke_index uuid model st = ([''classifier''], Inl OutputParseError)"
    if "messages st \<noteq> [] \<and>
      structured_output model schema_index
        (classifier_input_index (last (messages (graph_input uuid st)))) = Some l \<and>
      l \<notin> set schema_index"
  proof -
    from that have "messages (graph_input uuid st) \<noteq> []" by (simp add: graph_input_not_Nil)
    with that have "classifierNode_index model (graph_input uuid st) = Inl OutputParseError"
      by (simp add: classifierNode_index_def withStructuredOutput_def last_message_def
          last_conv_nth)
    then show ?thesis by (rule app_invoke_classifier_fails)
  qed
  have ro: "route st = l" if "intent st = Some l"
    using that by (simp add: route_def)
  have t: "successor (workflow model cs) ''classifier'' st = Inr l"
    if "intent st = Some l \<and> l \<in> set schema"
    using that by (simp add: successor_classifier route_def)
  have ti: "successor (workflow_index model) ''classifier'' st = Inr l"
    if "intent st = Some l \<and> l \<in> set schema_index"
    using that by (simp add: successor_classifier route_def)
  have n: "successor (workflow model cs) ''classifier'' st = Inr ''logical''"
    "successor (workflow_index model) ''classifier'' st = Inr ''logical''"
    if "intent st = None"
    using that by (simp_all add: successor_classifier route_def schema_def schema_index_def)
  have c: "\<exists>l' \<in> set schema. intent st' = Some l' \<and>
      successor (workflow model cs) ''classifier'' st' = Inr l'"
    if "classifierNode model st = Inr st'"
    using that by (auto simp: classifierNode_Inr successor_classifier route_def)
  have ci: "\<exists>l' \<in> set schema_index. intent st' = Some l' \<and>
      successor (workflow_index model) ''classifier'' st' = Inr l'"
    if "classifierNode_index model st = Inr st'"
    using that by (auto simp: classifierNode_index_Inr successor_classifier route_def)
  have r: "\<exists>l' \<in> set schema. intent st' = Some l' \<and>
      fst (app_invoke uuid model cs st) = [''classifier'', l']"
    if "snd (app_invoke uuid model cs st) = Inr st'"
  proof -
    from that have "app_invoke uuid model cs st = (fst (app_invoke uuid model cs st), Inr st')"
      by (metis prod.collapse)
    from app_invoke_Inr [OF this] show ?thesis by auto
  qed
  have ri: "\<exists>l' \<in> set schema_index. intent st' = Some l' \<and>
      fst (app_invoke_index uuid model st) = [''classifier'', l']"
    if "snd (app_invoke_index uuid model st) = Inr st'"
  proof -
    from that have "app_invoke_index uuid model st =
        (fst (app_invoke_index uuid model st), Inr st')"
      by (metis prod.collapse)
    from app_invoke_index_Inr [OF this] show ?thesis by auto
  qed
  have b: "map_of (nodes (workflow model cs)) ''emotional'' = Some (emotionalNode model)"
    "map_of (nodes (workflow model cs)) ''logical'' = Some (logicalNode model)"
    "map_of (nodes (workflow model cs)) ''general'' = Some (generalNode model)"
    "map_of (nodes (workflow model cs)) ''contact_request'' = Some (contactNode model cs)"
    "map_of (nodes (workflow_index model)) ''emotional'' = Some (emotionalNode model)"
    "map_of (nodes (workflow_index model)) ''logical'' = Some (logicalNode model)"
    "map_of (nodes (workflow_index model)) ''general'' = Some (generalNode model)"
    by (simp_all add: workflow_nodes workflow_index_nodes)
  show ?thesis
    using t ti n c ci r ri b u ui ro app_invoke_errors [of uuid model cs st e]
      app_invoke_index_errors [of uuid model st e]
    by blast
qed

theorem dispatcher_routes_witness:
  "successor (workflow (stub_model ''general'' ''Hi'') contacts_init) ''classifier''
     \<lparr>messages = [HumanMessage ''Halo''], intent = Some ''contact_request''\<rparr> =
     Inr ''contact_request'' \<and>
   successor (workflow (stub_model ''general'' ''Hi'') contacts_init) ''classifier''
     \<lparr>messages = [HumanMessage ''Halo''], intent = None\<rparr> = Inr ''logical'' \<and>
   successor (workflow_index (stub_model ''general'' ''Hi'')) ''classifier''
     \<lparr>messages = [HumanMessage ''Halo''], intent = Some ''emotional''\<rparr> = Inr ''emotional'' \<and>
   successor (workflow (stub_model ''general'' ''Hi'') contacts_init) ''classifier''
     \<lparr>messages = [HumanMessage ''Halo''], intent = Some ''general''\<rparr> = Inr ''general'' \<and>
   app_invoke_index zeros (stub_model ''contact_request'' ''Hi'')
     \<lparr>messages = [HumanMessage ''Halo''], intent = None\<rparr> =
     ([''classifier''], Inl OutputParseError)"
  using
    dispatcher_routes [where st = "\<lparr>messages = [HumanMessage ''Halo''], intent = None\<rparr>"
      and l = "''contact_request''" and model = "stub_model ''contact_request'' ''Hi''"
      and uuid = zeros]
    dispatcher_routes [where st = "\<lparr>messages = [HumanMessage ''Halo''], intent = Some ''contact_request''\<rparr>"
      and l = "''contact_request''" and model = "stub_model ''general'' ''Hi''"
      and cs = contacts_init]
    dispatcher_routes [where st = "\<lparr>messages = [HumanMessage ''Halo''], intent = None\<rparr>"
      and model = "stub_model ''general'' ''Hi''" and cs = contacts_init
      and st' = "\<lparr>messages = [HumanMessage ''Halo''], intent = Some ''general''\<rparr>"]
    dispatcher_routes [where st = "\<lparr>messages = [HumanMessage ''Halo''], intent = Some ''emotional''\<rparr>"
      and l = "''emotional''" and model = "stub_model ''general'' ''Hi''"]
  by (simp add: schema_def schema_index_def classifierNode_def last_message_def
      withStructuredOutput_def stub_model_def)

text \<open>The claim as worded sends an unrecognised label to \<open>logical\<close>. When the external
  classification answers with the label \<open>unknown\<close>, the classifier is the only node that
  runs and the invocation ends with the parse failure.\<close>

theorem dispatcher_unrecognized_counterexample:
  "''unknown'' \<notin> set schema \<and>
   structured_output (stub_model ''unknown'' ''Hi'') schema
     (classifier_input \<lparr>role = Human, content = ''Halo'', message_id = Some ''0''\<rparr>) =
     Some ''unknown'' \<and>
   app_invoke zeros (stub_model ''unknown'' ''Hi'') contacts_init
     \<lparr>messages = [HumanMessage ''Halo''], intent = None\<rparr> =
     ([''classifier''], Inl OutputParseError)"
proof -
  have g: "graph_input zeros \<lparr>messages = [HumanMessage ''Halo''], intent = None\<rparr> =
      \<lparr>messages = [\<lparr>role = Human, content = ''Halo'', message_id = Some ''0''\<rparr>],
       intent = None\<rparr>"
    by (simp add: graph_input_def apply_update_def messagesStateReducer_def missing_ids_def
        HumanMessage_def zeros_def)
  have "classifierNode (stub_model ''unknown'' ''Hi'')
      (graph_input zeros \<lparr>messages = [HumanMessage ''Halo''], intent = None\<rparr>) =
      Inl OutputParseError"
    by (simp add: g classifierNode_def last_message_def withStructuredOutput_def stub_model_def
        schema_def)
  then show ?thesis
    by (simp add: app_invoke_classifier_fails schema_def stub_model_def)
qed

section \<open>Frame properties of the nodes\<close>

text \<open>
  C5. Each of the four responder nodes, on a state whose last message is \<open>m\<close> and with
  \<open>r\<close> the reply of the external model to the node's request, returns the state with \<open>r\<close>
  appended to the message list. Whenever a responder returns a state at all, that state
  is the old one with exactly one message appended: the intent label is unchanged and
  the list is one longer.
\<close>

theorem responders_append_reply:
  "(last_message (messages st) = Some m \<and> invoke model (logical_input m) = Some r \<longrightarrow>
      logicalNode model st = Inr (st\<lparr>messages := messages st @ [r]\<rparr>)) \<and>
   (last_message (messages st) = Some m \<and> invoke model (emotional_input m) = Some r \<longrightarrow>
      emotionalNode model st = Inr (st\<lparr>messages := messages st @ [r]\<rparr>)) \<and>
   (last_message (messages st) = Some m \<and> invoke model (general_input m) = Some r \<longrightarrow>
      generalNode model st = Inr (st\<lparr>messages := messages st @ [r]\<rparr>)) \<and>
   (last_message (messages st) = Some m \<and> invoke model (contact_input cs m) = Some r \<longrightarrow>
      contactNode model cs st = Inr (st\<lparr>messages := messages st @ [r]\<rparr>)) \<and>
   (logicalNode model st = Inr st' \<or> emotionalNode model st = Inr st' \<or>
    generalNode model st = Inr st' \<or> contactNode model cs st = Inr st' \<longrightarrow>
      (\<exists>r'. st' = st\<lparr>messages := messages st @ [r']\<rparr>) \<and>
      intent st' = intent st \<and>
      length (messages st') = Suc (length (messages st)))"
  by (auto simp: responder_Inr)

theorem responders_append_reply_witness:
  "logicalNode (stub_model ''logical'' ''4'')
     \<lparr>messages = [HumanMessage ''2 + 2?''], intent = Some ''logical''\<rparr> =
   Inr \<lparr>messages = [HumanMessage ''2 + 2?'', \<lparr>role = AI, content = ''4'', message_id = None\<rparr>],
        intent = Some ''logical''\<rparr> \<and>
   contactNode (stub_model ''logical'' ''4'') contacts_init
     \<lparr>messages = [HumanMessage ''2 + 2?''], intent = Some ''logical''\<rparr> =
   Inr \<lparr>messages = [HumanMessage ''2 + 2?'', \<lparr>role = AI, content = ''4'', message_id = None\<rparr>],
        intent = Some ''logical''\<rparr>"
  using responders_append_reply
    [of "\<lparr>messages = [HumanMessage ''2 + 2?''], intent = Some ''logical''\<rparr>"
      "HumanMessage ''2 + 2?''" "stub_model ''logical'' ''4''" "\<lparr>role = AI, content = ''4'', message_id = None\<rparr>"
      contacts_init]
  by (simp add: last_message_def stub_model_def)

text \<open>
  C6. The classifier node, on a state whose last message is \<open>m\<close> and with \<open>l\<close> the label
  the external classification returns for the node's request, \<open>l\<close> being a label of the
  schema, returns the state with the intent set to \<open>l\<close> and nothing else changed.
  Whenever the classifier returns a state, the message list is the old one and the
  stored label is a member of the schema's enumeration. Both for the schema with four
  labels and for the one with three.
\<close>

theorem classifier_overwrites_intent_only:
  "(last_message (messages st) = Some m \<and>
    structured_output model schema (classifier_input m) = Some l \<and> l \<in> set schema \<longrightarrow>
      classifierNode model st = Inr (st\<lparr>intent := Some l\<rparr>)) \<and>
   (classifierNode model st = Inr st' \<longrightarrow>
      messages st' = messages st \<and>
      (\<exists>l' \<in> set schema. st' = st\<lparr>intent := Some l'\<rparr>)) \<and>
   (last_message (messages st) = Some m \<and>
    structured_output model schema_index (classifier_input_index m) = Some l \<and>
    l \<in> set schema_index \<longrightarrow>
      classifierNode_index model st = Inr (st\<lparr>intent := Some l\<rparr>)) \<and>
   (classifierNode_index model st = Inr st' \<longrightarrow>
      messages st' = messages st \<and>
      (\<exists>l' \<in> set schema_index. st' = st\<lparr>intent := Some l'\<rparr>))"
  by (auto simp: classifierNode_Inr classifierNode_index_Inr)

theorem classifier_overwrites_intent_only_witness:
  "classifierNode (stub_model ''general'' ''Hi'')
     \<lparr>messages = [HumanMessage ''Halo''], intent = Some ''logical''\<rparr> =
   Inr \<lparr>messages = [HumanMessage ''Halo''], intent = Some ''general''\<rparr> \<and>
   classifierNode_index (stub_model ''general'' ''Hi'')
     \<lparr>messages = [HumanMessage ''Halo''], intent = Some ''logical''\<rparr> =
   Inr \<lparr>messages = [HumanMessage ''Halo''], intent = Some ''general''\<rparr>"
  using classifier_overwrites_intent_only
    [of "\<lparr>messages = [HumanMessage ''Halo''], intent = Some ''logical''\<rparr>"
      "HumanMessage ''Halo''" "stub_model ''general'' ''Hi''" "''general''"]
  by (simp add: last_message_def stub_model_def schema_def schema_index_def)

section \<open>One turn of the graph\<close>




section \<open>The exit command\<close>

lemma main_loop_events_line:
  assumes ne: "toLowerCase userInput \<noteq> ''exit''"
  shows "prefix (events p @ map Ran (fst (app t (push_user (state p) userInput))))
           (outcome_events (main_loop app t p (userInput # rest)))"
proof -
  let ?a = "app t (push_user (state p) userInput)"
  from main_loop_turn [OF ne, of app t p rest] show ?thesis
  proof (elim disjE exE conjE)
    fix st'
    assume m: "main_loop app t p (userInput # rest) =
        main_loop app (Suc t)
          \<lparr>state = st', events = events p @ map Ran (fst ?a)
               @ [Bot (content (last (messages st')))]\<rparr> rest"
    have "prefix (events p @ map Ran (fst ?a) @ [Bot (content (last (messages st')))])
        (outcome_events (main_loop app (Suc t)
          \<lparr>state = st', events = events p @ map Ran (fst ?a)
               @ [Bot (content (last (messages st')))]\<rparr> rest))"
      using main_loop_events_prefix [of "\<lparr>state = st', events = events p @ map Ran (fst ?a)
               @ [Bot (content (last (messages st')))]\<rparr>" app "Suc t" rest]
      by simp
    then have "prefix (events p @ map Ran (fst ?a))
        (outcome_events (main_loop app (Suc t)
          \<lparr>state = st', events = events p @ map Ran (fst ?a)
               @ [Bot (content (last (messages st')))]\<rparr> rest))"
      by (metis append.assoc append_prefixD)
    with m show ?thesis by simp
  qed simp_all
qed

text \<open>
  C2. On a line whose lower-case form is \<open>exit\<close> the loop ends: the state is the one
  before the line (no message is appended), no node runs, only the goodbye is printed,
  and the lines after it are not read. The lines with that lower-case form are exactly
  the sixteen spellings of \<open>exit\<close> in upper and lower case. On every other line the
  loop appends the line as a new user message to the history and invokes the graph on
  the state with that message: if the invocation ends in an exception the process ends
  with it, and if it returns, the loop goes on to the next line with the returned state.
  The nodes of that invocation, the classifier first, are the next ones to run, and the
  history an invocation returns is never empty. This holds for the graph with the
  contact node and for the one without.
\<close>

theorem exit_command:
  "(toLowerCase userInput = ''exit'' \<longrightarrow>
      main_loop app t p (userInput # rest) = Exited (p\<lparr>events := events p @ [Bye]\<rparr>)) \<and>
   (toLowerCase userInput = ''exit'' \<longleftrightarrow>
      (\<exists>a b c d. userInput = [a, b, c, d] \<and> a \<in> {CHR ''e'', CHR ''E''} \<and>
         b \<in> {CHR ''x'', CHR ''X''} \<and> c \<in> {CHR ''i'', CHR ''I''} \<and>
         d \<in> {CHR ''t'', CHR ''T''})) \<and>
   (toLowerCase userInput \<noteq> ''exit'' \<longrightarrow>
      messages (push_user (state p) userInput) = messages (state p) @ [HumanMessage userInput] \<and>
      intent (push_user (state p) userInput) = intent (state p) \<and>
      (snd (app t (push_user (state p) userInput)) = Inl e \<longrightarrow>
         main_loop app t p (userInput # rest) =
           Crashed e (events p @ map Ran (fst (app t (push_user (state p) userInput))))) \<and>
      (snd (app t (push_user (state p) userInput)) = Inr st' \<and> messages st' \<noteq> [] \<longrightarrow>
         main_loop app t p (userInput # rest) =
           main_loop app (Suc t)
             \<lparr>state = st',
              events = events p @ map Ran (fst (app t (push_user (state p) userInput)))
                  @ [Bot (content (last (messages st')))]\<rparr> rest) \<and>
      prefix (events p @ map Ran (fst (app t (push_user (state p) userInput))))
        (outcome_events (main_loop app t p (userInput # rest))) \<and>
      hd (fst (app_invoke uuid model cs (push_user (state p) userInput))) = ''classifier'' \<and>
      (snd (app_invoke uuid model cs (push_user (state p) userInput)) = Inr st' \<longrightarrow>
         messages st' \<noteq> []) \<and>
      hd (fst (app_invoke_index uuid model (push_user (state p) userInput))) = ''classifier'' \<and>
      (snd (app_invoke_index uuid model (push_user (state p) userInput)) = Inr st' \<longrightarrow>
         messages st' \<noteq> []))"
proof (intro conjI impI)
  assume "toLowerCase userInput = ''exit''"
  then show "main_loop app t p (userInput # rest) = Exited (p\<lparr>events := events p @ [Bye]\<rparr>)"
    by (rule main_loop_exit)
next
  show "toLowerCase userInput = ''exit'' \<longleftrightarrow>
      (\<exists>a b c d. userInput = [a, b, c, d] \<and> a \<in> {CHR ''e'', CHR ''E''} \<and>
         b \<in> {CHR ''x'', CHR ''X''} \<and> c \<in> {CHR ''i'', CHR ''I''} \<and>
         d \<in> {CHR ''t'', CHR ''T''})"
    by (rule toLowerCase_exit)
next
  show "messages (push_user (state p) userInput) = messages (state p) @ [HumanMessage userInput]"
    by (rule push_user_messages)
  show "intent (push_user (state p) userInput) = intent (state p)"
    by (simp add: push_user_def)
next
  assume ne: "toLowerCase userInput \<noteq> ''exit''"
    and "snd (app t (push_user (state p) userInput)) = Inl e"
  with main_loop_turn [OF ne, of app t p rest]
  show "main_loop app t p (userInput # rest) =
           Crashed e (events p @ map Ran (fst (app t (push_user (state p) userInput))))"
    by auto
next
  assume ne: "toLowerCase userInput \<noteq> ''exit''"
    and "snd (app t (push_user (state p) userInput)) = Inr st' \<and> messages st' \<noteq> []"
  with main_loop_turn [OF ne, of app t p rest]
  show "main_loop app t p (userInput # rest) =
           main_loop app (Suc t)
             \<lparr>state = st',
              events = events p @ map Ran (fst (app t (push_user (state p) userInput)))
                  @ [Bot (content (last (messages st')))]\<rparr> rest"
    by auto
next
  assume ne: "toLowerCase userInput \<noteq> ''exit''"
  then show "prefix (events p @ map Ran (fst (app t (push_user (state p) userInput))))
        (outcome_events (main_loop app t p (userInput # rest)))"
    by (rule main_loop_events_line)
next
  show "hd (fst (app_invoke uuid model cs (push_user (state p) userInput))) = ''classifier''"
    using app_invoke_trace [of uuid model cs "push_user (state p) userInput"] by auto
  show "hd (fst (app_invoke_index uuid model (push_user (state p) userInput))) = ''classifier''"
    using app_invoke_index_trace [of uuid model "push_user (state p) userInput"] by auto
next
  assume "snd (app_invoke uuid model cs (push_user (state p) userInput)) = Inr st'"
  then have "app_invoke uuid model cs (push_user (state p) userInput) =
      (fst (app_invoke uuid model cs (push_user (state p) userInput)), Inr st')"
    by (metis prod.collapse)
  from app_invoke_Inr [OF this] show "messages st' \<noteq> []" by auto
next
  assume "snd (app_invoke_index uuid model (push_user (state p) userInput)) = Inr st'"
  then have "app_invoke_index uuid model (push_user (state p) userInput) =
      (fst (app_invoke_index uuid model (push_user (state p) userInput)), Inr st')"
    by (metis prod.collapse)
  from app_invoke_index_Inr [OF this] show "messages st' \<noteq> []" by auto
qed

theorem exit_command_witness:
  "toLowerCase ''EXIT'' = ''exit'' \<and>
   main_loop (\<lambda>t. app_invoke zeros (stub_model ''general'' ''Hi'') contacts_init) 0
     \<lparr>state = \<lparr>messages = [], intent = None\<rparr>, events = []\<rparr> [''EXIT'', ''Halo''] =
   Exited \<lparr>state = \<lparr>messages = [], intent = None\<rparr>, events = [Bye]\<rparr> \<and>
   toLowerCase ''Halo'' \<noteq> ''exit'' \<and>
   messages (push_user \<lparr>messages = [], intent = None\<rparr> ''Halo'') = [HumanMessage ''Halo''] \<and>
   main_loop (\<lambda>t. app_invoke zeros failing_model contacts_init) 0
     \<lparr>state = \<lparr>messages = [], intent = None\<rparr>, events = []\<rparr> [''Halo'', ''EXIT''] =
   Crashed CallFailed [Ran ''classifier'']"
proof -
  have g: "graph_input zeros (push_user \<lparr>messages = [], intent = None\<rparr> ''Halo'') =
      \<lparr>messages = [\<lparr>role = Human, content = ''Halo'', message_id = Some ''0''\<rparr>],
       intent = None\<rparr>"
    by (simp add: graph_input_def apply_update_def messagesStateReducer_def missing_ids_def
        push_user_def HumanMessage_def zeros_def)
  have "classifierNode failing_model
      (graph_input zeros (push_user \<lparr>messages = [], intent = None\<rparr> ''Halo'')) = Inl CallFailed"
    by (simp add: g classifierNode_def last_message_def withStructuredOutput_def
        failing_model_def)
  then have a: "app_invoke zeros failing_model contacts_init
      (push_user \<lparr>messages = [], intent = None\<rparr> ''Halo'') = ([''classifier''], Inl CallFailed)"
    by (rule app_invoke_classifier_fails)
  show ?thesis
    using
      exit_command [where userInput = "''EXIT''" and rest = "[''Halo'']" and t = 0
        and app = "\<lambda>t. app_invoke zeros (stub_model ''general'' ''Hi'') contacts_init"
        and p = "\<lparr>state = \<lparr>messages = [], intent = None\<rparr>, events = []\<rparr>"]
      exit_command [where userInput = "''Halo''" and rest = "[''EXIT'']" and t = 0
        and app = "\<lambda>t. app_invoke zeros failing_model contacts_init" and e = CallFailed
        and p = "\<lparr>state = \<lparr>messages = [], intent = None\<rparr>, events = []\<rparr>"]
      a
    by (simp add: toLowerCase_def toLowerCase_char_def is_upper_def)
qed

section \<open>The conversation history\<close>



text \<open>An example of the second case: the history holds a greeting and its answer, the
  user asks a question, and the reply comes with the identifier of the earlier answer.
  The reply takes the place of that answer, and the question stays last.\<close>

lemma reply_with_known_id_replaces:
  "app_invoke zeros
     (stub_reply ''logical'' \<lparr>role = AI, content = ''4'', message_id = Some ''X''\<rparr>) contacts_init
     (push_user
        \<lparr>messages = [\<lparr>role = Human, content = ''Halo'', message_id = Some ''a''\<rparr>,
                      \<lparr>role = AI, content = ''Hi'', message_id = Some ''X''\<rparr>],
         intent = Some ''general''\<rparr> ''2 + 2?'') =
   ([''classifier'', ''logical''],
    Inr \<lparr>messages = [\<lparr>role = Human, content = ''Halo'', message_id = Some ''a''\<rparr>,
                      \<lparr>role = AI, content = ''4'', message_id = Some ''X''\<rparr>,
                      \<lparr>role = Human, content = ''2 + 2?'', message_id = Some ''0''\<rparr>],
         intent = Some ''logical''\<rparr>)"
proof -
  let ?st = "push_user
        \<lparr>messages = [\<lparr>role = Human, content = ''Halo'', message_id = Some ''a''\<rparr>,
                      \<lparr>role = AI, content = ''Hi'', message_id = Some ''X''\<rparr>],
         intent = Some ''general''\<rparr> ''2 + 2?''"
  let ?model = "stub_reply ''logical'' \<lparr>role = AI, content = ''4'', message_id = Some ''X''\<rparr>"
  have g: "graph_input zeros ?st =
      \<lparr>messages = [\<lparr>role = Human, content = ''Halo'', message_id = Some ''a''\<rparr>,
                    \<lparr>role = AI, content = ''Hi'', message_id = Some ''X''\<rparr>,
                    \<lparr>role = Human, content = ''2 + 2?'', message_id = Some ''0''\<rparr>],
       intent = Some ''general''\<rparr>"
    by (simp add: graph_input_def apply_update_def messagesStateReducer_def missing_ids_def
        push_user_def HumanMessage_def zeros_def)
  have c: "classifierNode ?model (graph_input zeros ?st) =
      Inr ((graph_input zeros ?st)\<lparr>intent := Some ''logical''\<rparr>)"
    by (simp add: g classifierNode_def last_message_def withStructuredOutput_def stub_reply_def
        schema_def)
  have m: "missing_ids (messages ?st) = 1"
    by (simp add: missing_ids_def push_user_def)
  from app_invoke_classified [OF _ _ c, where f = "logicalNode ?model" and cs = contacts_init]
  show ?thesis
    by (simp add: g m workflow_nodes schema_def logicalNode_def last_message_def
        model_invoke_def stub_reply_def apply_update_def messagesStateReducer_def
        missing_ids_def)
qed

section \<open>The contact list\<close>

text \<open>
  C8. When the classifier has stored the label \<open>contact_request\<close>, the dispatcher selects
  the node of that name, which is bound to the contact node, and the invocation runs the
  classifier and then the contact node and nothing else: it ends with the exception of
  the contact node's call when that call fails, and returns with the label still stored
  when it answers. The contact node's call to the external model consists of a system
  message, whose text is the instruction followed by the serialised contact list, and a
  human message, whose text quotes the content of the last message of the history the
  node reads. In an invocation from the run loop that last message is the user's line,
  as long as the identifiers in the history are pairwise different. For the initial
  contact list the serialisation is the indented JSON text of the two records.
\<close>

theorem contact_request_routed:
  "(classifierNode model st = Inr stc \<and> intent stc = Some ''contact_request'' \<longrightarrow>
      successor (workflow model cs) ''classifier'' stc = Inr ''contact_request'') \<and>
   map_of (nodes (workflow model cs)) ''contact_request'' = Some (contactNode model cs) \<and>
   (classifierNode model (graph_input uuid st) = Inr stc \<and>
    intent stc = Some ''contact_request'' \<longrightarrow>
      fst (app_invoke uuid model cs st) = [''classifier'', ''contact_request''] \<and>
      messages (graph_input uuid st) \<noteq> [] \<and>
      (invoke model (contact_input cs (last (messages (graph_input uuid st)))) = None \<longrightarrow>
         snd (app_invoke uuid model cs st) = Inl CallFailed) \<and>
      (invoke model (contact_input cs (last (messages (graph_input uuid st)))) \<noteq> None \<longrightarrow>
         (\<exists>st'. snd (app_invoke uuid model cs st) = Inr st' \<and>
            intent st' = Some ''contact_request''))) \<and>
   (messages st \<noteq> [] \<longrightarrow>
      contactNode model cs st =
        (case invoke model (contact_input cs (last (messages st))) of
           None \<Rightarrow> Inl CallFailed
         | Some r \<Rightarrow> Inr (st\<lparr>messages := messages st @ [r]\<rparr>))) \<and>
   (distinct (map message_id (assign_ids uuid 0 (messages (push_user st userInput)))) \<longrightarrow>
      content (last (messages (graph_input uuid (push_user st userInput)))) = userInput) \<and>
   contact_input cs m =
     [\<lparr>role = System, content = contact_prompt_head @ JSON_stringify cs @ contact_prompt_tail,
       message_id = None\<rparr>,
      \<lparr>role = Human, content = ''Pesan user: '' @ [CHR 0x22] @ content m @ [CHR 0x22],
       message_id = None\<rparr>] \<and>
   JSON_stringify contacts_init =
     ''[\<newline>'' @
     ''  {\<newline>'' @
     ''    '' @ [CHR 0x22] @ ''name'' @ [CHR 0x22] @ '': '' @ [CHR 0x22] @ ''Andi'' @ [CHR 0x22] @ '',\<newline>'' @
     ''    '' @ [CHR 0x22] @ ''phone'' @ [CHR 0x22] @ '': '' @ [CHR 0x22] @ ''08123456789'' @ [CHR 0x22] @ '',\<newline>'' @
     ''    '' @ [CHR 0x22] @ ''city'' @ [CHR 0x22] @ '': '' @ [CHR 0x22] @ ''Makassar'' @ [CHR 0x22] @ ''\<newline>'' @
     ''  },\<newline>'' @
     ''  {\<newline>'' @
     ''    '' @ [CHR 0x22] @ ''name'' @ [CHR 0x22] @ '': '' @ [CHR 0x22] @ ''Budi'' @ [CHR 0x22] @ '',\<newline>'' @
     ''    '' @ [CHR 0x22] @ ''phone'' @ [CHR 0x22] @ '': '' @ [CHR 0x22] @ ''08987654321'' @ [CHR 0x22] @ '',\<newline>'' @
     ''    '' @ [CHR 0x22] @ ''city'' @ [CHR 0x22] @ '': '' @ [CHR 0x22] @ ''Bone'' @ [CHR 0x22] @ ''\<newline>'' @
     ''  }\<newline>'' @
     '']''"
proof (intro conjI impI)
  assume "classifierNode model st = Inr stc \<and> intent stc = Some ''contact_request''"
  then show "successor (workflow model cs) ''classifier'' stc = Inr ''contact_request''"
    by (simp add: successor_classifier route_def schema_def)
next
  show f: "map_of (nodes (workflow model cs)) ''contact_request'' = Some (contactNode model cs)"
    by (simp add: workflow_nodes)
  have l: "''contact_request'' \<in> set schema" by (simp add: schema_def)
  {
    assume a: "classifierNode model (graph_input uuid st) = Inr stc \<and>
      intent stc = Some ''contact_request''"
    then have s: "stc = (graph_input uuid st)\<lparr>intent := Some ''contact_request''\<rparr>"
      by (auto simp: classifierNode_Inr)
    from a show ne: "messages (graph_input uuid st) \<noteq> []"
      by (auto simp: classifierNode_Inr last_message_Some)
    from a s have c: "classifierNode model (graph_input uuid st) =
        Inr ((graph_input uuid st)\<lparr>intent := Some ''contact_request''\<rparr>)"
      by simp
    note inv = app_invoke_classified [OF l f c]
    from inv show "fst (app_invoke uuid model cs st) = [''classifier'', ''contact_request'']"
      by (simp split: sum.splits)
    {
      assume "invoke model (contact_input cs (last (messages (graph_input uuid st)))) = None"
      with inv ne show "snd (app_invoke uuid model cs st) = Inl CallFailed"
        by (simp add: contactNode_def model_invoke_def last_message_def last_conv_nth)
    }
    {
      assume "invoke model (contact_input cs (last (messages (graph_input uuid st)))) \<noteq> None"
      with inv ne
      show "\<exists>st'. snd (app_invoke uuid model cs st) = Inr st' \<and>
            intent st' = Some ''contact_request''"
        by (auto simp: contactNode_def model_invoke_def last_message_def last_conv_nth
            apply_update_def)
    }
  }
next
  assume "messages st \<noteq> []"
  then show "contactNode model cs st =
        (case invoke model (contact_input cs (last (messages st))) of
           None \<Rightarrow> Inl CallFailed
         | Some r \<Rightarrow> Inr (st\<lparr>messages := messages st @ [r]\<rparr>))"
    by (simp add: contactNode_def model_invoke_def last_message_def last_conv_nth
        split: option.split)
next
  assume "distinct (map message_id (assign_ids uuid 0 (messages (push_user st userInput))))"
  then have "messages (graph_input uuid (push_user st userInput)) =
      assign_ids uuid 0 (messages (push_user st userInput))"
    by (rule graph_input_fresh)
  then show "content (last (messages (graph_input uuid (push_user st userInput)))) = userInput"
    by (simp add: content_last_assign_ids push_user_messages)
next
  show "contact_input cs m =
     [\<lparr>role = System, content = contact_prompt_head @ JSON_stringify cs @ contact_prompt_tail,
       message_id = None\<rparr>,
      \<lparr>role = Human, content = ''Pesan user: '' @ [CHR 0x22] @ content m @ [CHR 0x22],
       message_id = None\<rparr>]"
    by (simp add: contact_input_def SystemMessage_def HumanMessage_def contact_prompt_def
        pesan_template_def)
next
  show "JSON_stringify contacts_init =
     ''[\<newline>'' @
     ''  {\<newline>'' @
     ''    '' @ [CHR 0x22] @ ''name'' @ [CHR 0x22] @ '': '' @ [CHR 0x22] @ ''Andi'' @ [CHR 0x22] @ '',\<newline>'' @
     ''    '' @ [CHR 0x22] @ ''phone'' @ [CHR 0x22] @ '': '' @ [CHR 0x22] @ ''08123456789'' @ [CHR 0x22] @ '',\<newline>'' @
     ''    '' @ [CHR 0x22] @ ''city'' @ [CHR 0x22] @ '': '' @ [CHR 0x22] @ ''Makassar'' @ [CHR 0x22] @ ''\<newline>'' @
     ''  },\<newline>'' @
     ''  {\<newline>'' @
     ''    '' @ [CHR 0x22] @ ''name'' @ [CHR 0x22] @ '': '' @ [CHR 0x22] @ ''Budi'' @ [CHR 0x22] @ '',\<newline>'' @
     ''    '' @ [CHR 0x22] @ ''phone'' @ [CHR 0x22] @ '': '' @ [CHR 0x22] @ ''08987654321'' @ [CHR 0x22] @ '',\<newline>'' @
     ''    '' @ [CHR 0x22] @ ''city'' @ [CHR 0x22] @ '': '' @ [CHR 0x22] @ ''Bone'' @ [CHR 0x22] @ ''\<newline>'' @
     ''  }\<newline>'' @
     '']''"
    by (simp add: JSON_stringify_def stringify_contact_def json_quote_def json_escape_char_def
        contacts_init_def)
qed

theorem contact_request_routed_witness:
  "fst (app_invoke zeros (stub_model ''contact_request'' ''08123456789'') contacts_init
     (push_user \<lparr>messages = [], intent = None\<rparr> ''Apa nomor telepon Andi?'')) =
     [''classifier'', ''contact_request''] \<and>
   (\<exists>st'. snd (app_invoke zeros (stub_model ''contact_request'' ''08123456789'') contacts_init
      (push_user \<lparr>messages = [], intent = None\<rparr> ''Apa nomor telepon Andi?'')) = Inr st' \<and>
      intent st' = Some ''contact_request'') \<and>
   content (last (messages (graph_input zeros
     (push_user \<lparr>messages = [], intent = None\<rparr> ''Apa nomor telepon Andi?'')))) =
     ''Apa nomor telepon Andi?''"
proof -
  have g: "graph_input zeros
      (push_user \<lparr>messages = [], intent = None\<rparr> ''Apa nomor telepon Andi?'') =
      \<lparr>messages = [\<lparr>role = Human, content = ''Apa nomor telepon Andi?'',
                      message_id = Some ''0''\<rparr>], intent = None\<rparr>"
    by (simp add: graph_input_def apply_update_def messagesStateReducer_def missing_ids_def
        push_user_def HumanMessage_def zeros_def)
  show ?thesis
    using contact_request_routed
      [where model = "stub_model ''contact_request'' ''08123456789''" and cs = contacts_init
        and uuid = zeros
        and st = "push_user \<lparr>messages = [], intent = None\<rparr> ''Apa nomor telepon Andi?''"
        and stc = "\<lparr>messages = [\<lparr>role = Human, content = ''Apa nomor telepon Andi?'',
                      message_id = Some ''0''\<rparr>], intent = Some ''contact_request''\<rparr>"
        and userInput = "''Apa nomor telepon Andi?''"]
    by (simp add: g classifierNode_def last_message_def withStructuredOutput_def stub_model_def
        schema_def)
qed

section \<open>What the nodes read\<close>

lemma map_sum_classifier:
  assumes "last_message (messages sa) = Some ma" "last_message (messages sb) = Some mb"
    and "structured_output modela labels ina = structured_output modelb labels inb"
  shows "map_sum id intent
      (case withStructuredOutput labels modela ina of
         Inl e \<Rightarrow> Inl e | Inr resp \<Rightarrow> Inr (sa\<lparr>intent := Some resp\<rparr>)) =
    map_sum id intent
      (case withStructuredOutput labels modelb inb of
         Inl e \<Rightarrow> Inl e | Inr resp \<Rightarrow> Inr (sb\<lparr>intent := Some resp\<rparr>))"
  using assms by (simp add: withStructuredOutput_def split: option.split)

lemma map_sum_responder:
  assumes "invoke modela ina = invoke modelb inb"
  shows "map_sum id (\<lambda>s. last (messages s))
      (case model_invoke modela ina of
         Inl e \<Rightarrow> Inl e | Inr resp \<Rightarrow> Inr (sa\<lparr>messages := messages sa @ [resp]\<rparr>)) =
    map_sum id (\<lambda>s. last (messages s))
      (case model_invoke modelb inb of
         Inl e \<Rightarrow> Inl e | Inr resp \<Rightarrow> Inr (sb\<lparr>messages := messages sb @ [resp]\<rparr>))"
  using assms by (simp add: model_invoke_def split: option.split)

text \<open>
  C9. Take two states whose last messages have the same content; the earlier entries,
  the lengths, the roles and the intent labels may differ. Then every node builds the
  same request from both. If the external model gives the same answer to that request in
  both runs, the classifier stores the same label (or fails the same way) and each
  responder appends the same message (or fails the same way).
\<close>

theorem nodes_read_last_message_only:
  "last_message (messages sa) = Some ma \<and> last_message (messages sb) = Some mb \<and>
   content ma = content mb \<longrightarrow>
     classifier_input ma = classifier_input mb \<and>
     classifier_input_index ma = classifier_input_index mb \<and>
     logical_input ma = logical_input mb \<and>
     emotional_input ma = emotional_input mb \<and>
     general_input ma = general_input mb \<and>
     contact_input cs ma = contact_input cs mb \<and>
     (structured_output modela schema (classifier_input ma) =
      structured_output modelb schema (classifier_input mb) \<longrightarrow>
        map_sum id intent (classifierNode modela sa) =
        map_sum id intent (classifierNode modelb sb)) \<and>
     (structured_output modela schema_index (classifier_input_index ma) =
      structured_output modelb schema_index (classifier_input_index mb) \<longrightarrow>
        map_sum id intent (classifierNode_index modela sa) =
        map_sum id intent (classifierNode_index modelb sb)) \<and>
     (invoke modela (logical_input ma) = invoke modelb (logical_input mb) \<longrightarrow>
        map_sum id (\<lambda>s. last (messages s)) (logicalNode modela sa) =
        map_sum id (\<lambda>s. last (messages s)) (logicalNode modelb sb)) \<and>
     (invoke modela (emotional_input ma) = invoke modelb (emotional_input mb) \<longrightarrow>
        map_sum id (\<lambda>s. last (messages s)) (emotionalNode modela sa) =
        map_sum id (\<lambda>s. last (messages s)) (emotionalNode modelb sb)) \<and>
     (invoke modela (general_input ma) = invoke modelb (general_input mb) \<longrightarrow>
        map_sum id (\<lambda>s. last (messages s)) (generalNode modela sa) =
        map_sum id (\<lambda>s. last (messages s)) (generalNode modelb sb)) \<and>
     (invoke modela (contact_input cs ma) = invoke modelb (contact_input cs mb) \<longrightarrow>
        map_sum id (\<lambda>s. last (messages s)) (contactNode modela cs sa) =
        map_sum id (\<lambda>s. last (messages s)) (contactNode modelb cs sb))"
proof (intro impI)
  assume h: "last_message (messages sa) = Some ma \<and> last_message (messages sb) = Some mb \<and>
    content ma = content mb"
  then have la: "last_message (messages sa) = Some ma"
    and lb: "last_message (messages sb) = Some mb" and c: "content ma = content mb"
    by simp_all
  from c have inputs:
    "classifier_input ma = classifier_input mb"
    "classifier_input_index ma = classifier_input_index mb"
    "logical_input ma = logical_input mb"
    "emotional_input ma = emotional_input mb"
    "general_input ma = general_input mb"
    "contact_input cs ma = contact_input cs mb"
    by (simp_all add: classifier_input_def classifier_input_index_def logical_input_def
        emotional_input_def general_input_def contact_input_def)
  show "classifier_input ma = classifier_input mb \<and>
     classifier_input_index ma = classifier_input_index mb \<and>
     logical_input ma = logical_input mb \<and>
     emotional_input ma = emotional_input mb \<and>
     general_input ma = general_input mb \<and>
     contact_input cs ma = contact_input cs mb \<and>
     (structured_output modela schema (classifier_input ma) =
      structured_output modelb schema (classifier_input mb) \<longrightarrow>
        map_sum id intent (classifierNode modela sa) =
        map_sum id intent (classifierNode modelb sb)) \<and>
     (structured_output modela schema_index (classifier_input_index ma) =
      structured_output modelb schema_index (classifier_input_index mb) \<longrightarrow>
        map_sum id intent (classifierNode_index modela sa) =
        map_sum id intent (classifierNode_index modelb sb)) \<and>
     (invoke modela (logical_input ma) = invoke modelb (logical_input mb) \<longrightarrow>
        map_sum id (\<lambda>s. last (messages s)) (logicalNode modela sa) =
        map_sum id (\<lambda>s. last (messages s)) (logicalNode modelb sb)) \<and>
     (invoke modela (emotional_input ma) = invoke modelb (emotional_input mb) \<longrightarrow>
        map_sum id (\<lambda>s. last (messages s)) (emotionalNode modela sa) =
        map_sum id (\<lambda>s. last (messages s)) (emotionalNode modelb sb)) \<and>
     (invoke modela (general_input ma) = invoke modelb (general_input mb) \<longrightarrow>
        map_sum id (\<lambda>s. last (messages s)) (generalNode modela sa) =
        map_sum id (\<lambda>s. last (messages s)) (generalNode modelb sb)) \<and>
     (invoke modela (contact_input cs ma) = invoke modelb (contact_input cs mb) \<longrightarrow>
        map_sum id (\<lambda>s. last (messages s)) (contactNode modela cs sa) =
        map_sum id (\<lambda>s. last (messages s)) (contactNode modelb cs sb))"
  proof (intro conjI impI)
    assume "structured_output modela schema (classifier_input ma) =
      structured_output modelb schema (classifier_input mb)"
    from map_sum_classifier [OF la lb this]
    show "map_sum id intent (classifierNode modela sa) =
        map_sum id intent (classifierNode modelb sb)"
      by (simp add: classifierNode_def la lb)
  next
    assume "structured_output modela schema_index (classifier_input_index ma) =
      structured_output modelb schema_index (classifier_input_index mb)"
    from map_sum_classifier [OF la lb this]
    show "map_sum id intent (classifierNode_index modela sa) =
        map_sum id intent (classifierNode_index modelb sb)"
      by (simp add: classifierNode_index_def la lb)
  next
    assume "invoke modela (logical_input ma) = invoke modelb (logical_input mb)"
    from map_sum_responder [OF this]
    show "map_sum id (\<lambda>s. last (messages s)) (logicalNode modela sa) =
        map_sum id (\<lambda>s. last (messages s)) (logicalNode modelb sb)"
      by (simp add: logicalNode_def la lb)
  next
    assume "invoke modela (emotional_input ma) = invoke modelb (emotional_input mb)"
    from map_sum_responder [OF this]
    show "map_sum id (\<lambda>s. last (messages s)) (emotionalNode modela sa) =
        map_sum id (\<lambda>s. last (messages s)) (emotionalNode modelb sb)"
      by (simp add: emotionalNode_def la lb)
  next
    assume "invoke modela (general_input ma) = invoke modelb (general_input mb)"
    from map_sum_responder [OF this]
    show "map_sum id (\<lambda>s. last (messages s)) (generalNode modela sa) =
        map_sum id (\<lambda>s. last (messages s)) (generalNode modelb sb)"
      by (simp add: generalNode_def la lb)
  next
    assume "invoke modela (contact_input cs ma) = invoke modelb (contact_input cs mb)"
    from map_sum_responder [OF this]
    show "map_sum id (\<lambda>s. last (messages s)) (contactNode modela cs sa) =
        map_sum id (\<lambda>s. last (messages s)) (contactNode modelb cs sb)"
      by (simp add: contactNode_def la lb)
  qed (rule inputs)+
qed

theorem nodes_read_last_message_only_witness:
  "logical_input \<lparr>role = Human, content = ''2 + 2?'', message_id = None\<rparr> =
     logical_input \<lparr>role = AI, content = ''2 + 2?'', message_id = Some ''m2''\<rparr> \<and>
   map_sum id (\<lambda>s. last (messages s))
     (logicalNode (stub_model ''logical'' ''4'')
        \<lparr>messages = [HumanMessage ''2 + 2?''], intent = None\<rparr>) =
   map_sum id (\<lambda>s. last (messages s))
     (logicalNode (stub_model ''logical'' ''4'')
        \<lparr>messages = [HumanMessage ''Halo'', \<lparr>role = AI, content = ''Hi'', message_id = Some ''m1''\<rparr>,
                      \<lparr>role = AI, content = ''2 + 2?'', message_id = Some ''m2''\<rparr>],
         intent = Some ''general''\<rparr>)"
  using nodes_read_last_message_only
    [where sa = "\<lparr>messages = [HumanMessage ''2 + 2?''], intent = None\<rparr>"
      and sb = "\<lparr>messages = [HumanMessage ''Halo'', \<lparr>role = AI, content = ''Hi'', message_id = Some ''m1''\<rparr>,
                      \<lparr>role = AI, content = ''2 + 2?'', message_id = Some ''m2''\<rparr>], intent = Some ''general''\<rparr>"
      and ma = "\<lparr>role = Human, content = ''2 + 2?'', message_id = None\<rparr>"
      and mb = "\<lparr>role = AI, content = ''2 + 2?'', message_id = Some ''m2''\<rparr>"
      and modela = "stub_model ''logical'' ''4''" and modelb = "stub_model ''logical'' ''4''"]
  by (simp add: last_message_def HumanMessage_def stub_model_def)

section \<open>Reading the last message\<close>

text \<open>
  C10. No node guards its read of the last message: on an empty history each of them
  ends in a TypeError. On a non-empty history the read is defined, it yields the last
  element, and no node ends in a TypeError. The run loop pushes the user's message
  before it invokes the graph, so the history it passes is never empty, an invocation
  from the loop never ends in a TypeError, the history it returns is not empty either,
  and no run of the program, on any input, with any behaviour of the external model and
  any identifiers, crashes with a TypeError.
\<close>

theorem last_access_defined:
  "(messages st = [] \<longrightarrow>
      last_message (messages st) = None \<and>
      classifierNode model st = Inl TypeError \<and>
      classifierNode_index model st = Inl TypeError \<and>
      logicalNode model st = Inl TypeError \<and>
      emotionalNode model st = Inl TypeError \<and>
      generalNode model st = Inl TypeError \<and>
      contactNode model cs st = Inl TypeError) \<and>
   (messages st \<noteq> [] \<longrightarrow>
      last_message (messages st) = Some (last (messages st)) \<and>
      classifierNode model st \<noteq> Inl TypeError \<and>
      classifierNode_index model st \<noteq> Inl TypeError \<and>
      logicalNode model st \<noteq> Inl TypeError \<and>
      emotionalNode model st \<noteq> Inl TypeError \<and>
      generalNode model st \<noteq> Inl TypeError \<and>
      contactNode model cs st \<noteq> Inl TypeError \<and>
      messages (graph_input uuid st) \<noteq> [] \<and>
      snd (app_invoke uuid model cs st) \<noteq> Inl TypeError \<and>
      snd (app_invoke_index uuid model st) \<noteq> Inl TypeError) \<and>
   messages (push_user st userInput) \<noteq> [] \<and>
   snd (app_invoke uuid model cs (push_user st userInput)) \<noteq> Inl TypeError \<and>
   snd (app_invoke_index uuid model (push_user st userInput)) \<noteq> Inl TypeError \<and>
   (snd (app_invoke uuid model cs (push_user st userInput)) = Inr st' \<longrightarrow> messages st' \<noteq> []) \<and>
   (snd (app_invoke_index uuid model (push_user st userInput)) = Inr st' \<longrightarrow>
      messages st' \<noteq> []) \<and>
   main_loop (\<lambda>t. app_invoke (uuids t) (models t) cs) t p inputs \<noteq> Crashed TypeError evs \<and>
   main_loop (\<lambda>t. app_invoke_index (uuids t) (models t)) t p inputs \<noteq> Crashed TypeError evs \<and>
   main uuids models inputs \<noteq> Crashed TypeError evs \<and>
   main_index uuids models inputs \<noteq> Crashed TypeError evs"
proof -
  have pne: "messages (push_user st userInput) \<noteq> []"
    by (simp add: push_user_messages)
  have e: "last_message (messages st) = None" if "messages st = []"
    using that by (simp add: last_message_None)
  have d: "last_message (messages st) = Some (last (messages st))" if "messages st \<noteq> []"
    using that by (simp add: last_message_Some)
  have r: "messages st' \<noteq> []"
    if "snd (app_invoke uuid model cs (push_user st userInput)) = Inr st'"
  proof -
    from that have "app_invoke uuid model cs (push_user st userInput) =
        (fst (app_invoke uuid model cs (push_user st userInput)), Inr st')"
      by (metis prod.collapse)
    from app_invoke_Inr [OF this] show ?thesis by auto
  qed
  have ri: "messages st' \<noteq> []"
    if "snd (app_invoke_index uuid model (push_user st userInput)) = Inr st'"
  proof -
    from that have "app_invoke_index uuid model (push_user st userInput) =
        (fst (app_invoke_index uuid model (push_user st userInput)), Inr st')"
      by (metis prod.collapse)
    from app_invoke_index_Inr [OF this] show ?thesis by auto
  qed
  note loop = main_loop_no_TypeError [OF app_ok_app_invoke]
    main_loop_no_TypeError [OF app_ok_app_invoke_index]
  show ?thesis
    using e d pne r ri app_invoke_no_TypeError [of st uuid model cs]
      app_invoke_index_no_TypeError [of st uuid model]
      app_invoke_no_TypeError [OF pne, of uuid model cs]
      app_invoke_index_no_TypeError [OF pne, of uuid model]
      graph_input_not_Nil [of st uuid]
    by (simp add: node_TypeError loop main_def main_index_def)
qed

theorem last_access_defined_witness:
  "classifierNode (stub_model ''general'' ''Hi'') \<lparr>messages = [], intent = None\<rparr> =
     Inl TypeError \<and>
   last_message [HumanMessage ''Halo''] = Some (HumanMessage ''Halo'') \<and>
   classifierNode (stub_model ''general'' ''Hi'')
     \<lparr>messages = [HumanMessage ''Halo''], intent = None\<rparr> \<noteq> Inl TypeError \<and>
   main (\<lambda>t. zeros) (\<lambda>t. stub_model ''general'' ''Hi'') [''Halo'', ''exit''] \<noteq>
     Crashed TypeError [Ran ''classifier'']"
  using
    last_access_defined [where st = "\<lparr>messages = [], intent = None\<rparr>"
      and model = "stub_model ''general'' ''Hi''" and uuids = "\<lambda>t. zeros"
      and models = "\<lambda>t. stub_model ''general'' ''Hi''" and inputs = "[''Halo'', ''exit'']"
      and evs = "[Ran ''classifier'']"]
    last_access_defined [where st = "\<lparr>messages = [HumanMessage ''Halo''], intent = None\<rparr>"
      and model = "stub_model ''general'' ''Hi''"]
  by simp


end
